theory Spec2Isabelle
  imports Main
begin

text \<open>
  A command-line tool that opens a GitHub pull request for a JIRA issue. It reads two
  flags and four environment variables, asks git for the current branch, the default
  branch and the remote URL, fetches the summary of the issue from JIRA and posts the pull
  request to GitHub. The repository holds two versions of the program: the entry point
  of \<^verbatim>\<open>cmd/cli/pr/main.go\<close>, and a second one that discovers the default branch, puts
  the issue key in the title, opens the pull request as a draft and prints its URL.

  Both are modelled here as functions from the outside world of a run to the trace of
  what the run did and the way it ended.
\<close>

section \<open>Go strings and the library calls the program makes\<close>

text \<open>
  A Go string is a sequence of bytes, modelled as \<^typ>\<open>string\<close> (a list of 8-bit
  characters). The program calls \<^verbatim>\<open>strings.HasPrefix\<close>, \<^verbatim>\<open>strings.TrimSuffix\<close>,
  \<^verbatim>\<open>strings.Split\<close> (always with a one-byte separator) and \<^verbatim>\<open>strings.TrimSpace\<close>.
\<close>

definition HasPrefix :: "string \<Rightarrow> string \<Rightarrow> bool" where
  "HasPrefix s p = (take (length p) s = p)"

definition HasSuffix :: "string \<Rightarrow> string \<Rightarrow> bool" where
  "HasSuffix s x = (length x \<le> length s \<and> drop (length s - length x) s = x)"

definition TrimSuffix :: "string \<Rightarrow> string \<Rightarrow> string" where
  "TrimSuffix s x = (if HasSuffix s x then take (length s - length x) s else s)"

text \<open>
  \<^verbatim>\<open>strings.Split(s, sep)\<close> for a separator of one byte: the pieces between the
  occurrences of the separator, in order. The empty string gives one empty piece.
\<close>

fun Split :: "string \<Rightarrow> char \<Rightarrow> string list" where
  "Split [] sep = [[]]"
| "Split (c # cs) sep =
     (if c = sep then [] # Split cs sep
      else (case Split cs sep of
              [] \<Rightarrow> [[c]]
            | p # ps \<Rightarrow> (c # p) # ps))"

text \<open>
  \<^verbatim>\<open>strings.TrimSpace\<close> removes the white-space runes of Unicode from both ends.
  On bytes these are the six ASCII characters tab, line feed, vertical tab, form feed,
  carriage return and space, and the UTF-8 encodings of U+0085, U+00A0, U+1680,
  U+2000 to U+200A, U+2028, U+2029, U+202F, U+205F and U+3000. \<open>spaceRune s\<close> is the
  width in bytes of such a rune at the start of \<open>s\<close> (0 when there is none),
  \<open>spaceRuneLast\<close> the same at the end of the string, given reversed.
\<close>

definition asciiSpace :: "char \<Rightarrow> bool" where
  "asciiSpace c = (c = CHR 0x09 \<or> c = CHR 0x0A \<or> c = CHR 0x0B \<or> c = CHR 0x0C
                   \<or> c = CHR 0x0D \<or> c = CHR 0x20)"

definition spaceRune :: "string \<Rightarrow> nat" where
  "spaceRune s = (case s of [] \<Rightarrow> 0 | c # cs \<Rightarrow>
     (if asciiSpace c then 1
      else if c = CHR 0xC2 \<and> (take 1 cs = [CHR 0x85] \<or> take 1 cs = [CHR 0xA0]) then 2
      else if c = CHR 0xE1 \<and> take 2 cs = [CHR 0x9A, CHR 0x80] then 3
      else if c = CHR 0xE2 \<and> take 1 cs = [CHR 0x80] \<and>
              (case drop 1 cs of [] \<Rightarrow> False
               | e # _ \<Rightarrow> (0x80 \<le> (of_char e :: nat) \<and> (of_char e :: nat) \<le> 0x8A)
                           \<or> e = CHR 0xA8 \<or> e = CHR 0xA9 \<or> e = CHR 0xAF) then 3
      else if c = CHR 0xE2 \<and> take 2 cs = [CHR 0x81, CHR 0x9F] then 3
      else if c = CHR 0xE3 \<and> take 2 cs = [CHR 0x80, CHR 0x80] then 3
      else 0))"

definition spaceRuneLast :: "string \<Rightarrow> nat" where
  "spaceRuneLast s = (case s of [] \<Rightarrow> 0 | c # cs \<Rightarrow>
     (if asciiSpace c then 1
      else if (c = CHR 0x85 \<or> c = CHR 0xA0) \<and> take 1 cs = [CHR 0xC2] then 2
      else if c = CHR 0x80 \<and> take 2 cs = [CHR 0x9A, CHR 0xE1] then 3
      else if ((0x80 \<le> (of_char c :: nat) \<and> (of_char c :: nat) \<le> 0x8A)
                \<or> c = CHR 0xA8 \<or> c = CHR 0xA9 \<or> c = CHR 0xAF)
              \<and> take 2 cs = [CHR 0x80, CHR 0xE2] then 3
      else if c = CHR 0x9F \<and> take 2 cs = [CHR 0x81, CHR 0xE2] then 3
      else if c = CHR 0x80 \<and> take 2 cs = [CHR 0x80, CHR 0xE3] then 3
      else 0))"

function trimLeft :: "string \<Rightarrow> string" where
  "trimLeft [] = []"
| "trimLeft (c # cs) =
     (if spaceRune (c # cs) = 0 then c # cs
      else trimLeft (drop (spaceRune (c # cs) - 1) cs))"
  by pat_completeness auto
termination
  by (relation "measure length") simp_all

function trimRightRev :: "string \<Rightarrow> string" where
  "trimRightRev [] = []"
| "trimRightRev (c # cs) =
     (if spaceRuneLast (c # cs) = 0 then c # cs
      else trimRightRev (drop (spaceRuneLast (c # cs) - 1) cs))"
  by pat_completeness auto
termination
  by (relation "measure length") simp_all

definition TrimSpace :: "string \<Rightarrow> string" where
  "TrimSpace s = rev (trimRightRev (rev (trimLeft s)))"

section \<open>Parsing the remote URL\<close>

text \<open>
  The body of \<^verbatim>\<open>getGitHubRepoDetails\<close> between the trimming of the git output and the
  final test: the two branches that fill \<^verbatim>\<open>owner\<close> and \<^verbatim>\<open>repo\<close>, both
  initially empty. The text is the same in both entry points. \<^verbatim>\<open>parts[len(parts)-2]\<close>
  is read only under the guard \<^verbatim>\<open>len(parts) >= 2\<close>.
\<close>

definition ownerRepo :: "string \<Rightarrow> string \<times> string" where
  "ownerRepo url =
     (if HasPrefix url ''https://'' then
        (let parts = Split (TrimSuffix url ''.git'') CHR ''/'' in
         if length parts \<ge> 2
         then (parts ! (length parts - 2), parts ! (length parts - 1))
         else ([], []))
      else if HasPrefix url ''git@'' then
        (let parts = Split (TrimSuffix url ''.git'') CHR '':'' in
         if length parts = 2 then
           (let subParts = Split (parts ! 1) CHR ''/'' in
            if length subParts = 2 then (subParts ! 0, subParts ! 1) else ([], []))
         else ([], []))
      else ([], []))"

section \<open>The outside world of one run\<close>

text \<open>
  A run reads its command line and environment, spawns \<^verbatim>\<open>git\<close>, and sends two HTTP
  requests. Everything it reads from outside is a field of \<open>world\<close>; everything it
  does to the outside is an \<open>event\<close> of the trace the run returns.

  \<^item> \<open>Args\<close>: the command line after the program name, \<^verbatim>\<open>os.Args[1:]\<close>, which
    \<^verbatim>\<open>flag.Parse\<close> reads;
  \<^item> \<open>environ\<close>: the environment; \<^verbatim>\<open>os.Getenv\<close> gives the empty string for an unset
    variable;
  \<^item> \<open>git args\<close>: what \<^verbatim>\<open>exec.Command("git", args...).Output()\<close> returns, \<open>Inl\<close> the
    error text (non-zero exit, or no git binary), \<open>Inr\<close> the standard output;
  \<^item> \<open>NewRequest_err method url\<close>: the error of \<^verbatim>\<open>http.NewRequest\<close>, if any;
  \<^item> \<open>transport req\<close>: what \<^verbatim>\<open>client.Do(req)\<close> returns;
  \<^item> \<open>Unmarshal_JIRAIssue body\<close>: \<^verbatim>\<open>json.Unmarshal\<close> into a \<^verbatim>\<open>JIRAIssue\<close>, \<open>Inl\<close> the
    error, \<open>Inr\<close> the value of \<^verbatim>\<open>Fields.Summary\<close>;
  \<^item> \<open>Unmarshal_PullRequestResponse body\<close>: the \<^verbatim>\<open>URL\<close> field after \<^verbatim>\<open>json.Unmarshal\<close>
    into a \<^verbatim>\<open>PullRequestResponse\<close> (the program discards the error of that call).
\<close>

datatype json = JString string | JBool bool

record request =
  Method :: string
  URL :: string
  Header :: "(string \<times> string) list"
  BasicAuth :: "(string \<times> string) option"
  Payload :: "(string \<times> json) list option"

text \<open>
  \<open>RespBody\<close> is what \<^verbatim>\<open>io.ReadAll(resp.Body)\<close> returns and \<open>ReadErr\<close> the error it
  returns with it. \<open>Status\<close> is the status line's text (\<^verbatim>\<open>"404 Not Found"\<close>) and
  \<open>StatusCode\<close> its number.
\<close>

record response =
  StatusCode :: int
  Status :: string
  RespBody :: string
  ReadErr :: "string option"

record world =
  Args :: "string list"
  environ :: "string \<rightharpoonup> string"
  git :: "string list \<Rightarrow> string + string"
  NewRequest_err :: "string \<Rightarrow> string \<Rightarrow> string option"
  transport :: "request \<Rightarrow> string + response"
  Unmarshal_JIRAIssue :: "string \<Rightarrow> string + string"
  Unmarshal_PullRequestResponse :: "string \<Rightarrow> string"

datatype event = Exec "string list" | Do request | Stdout string

text \<open>
  A run ends by returning from \<^verbatim>\<open>main\<close> (\<open>Exit0\<close>, exit status 0), in \<^verbatim>\<open>log.Fatalf\<close>
  (\<open>Fatal\<close>: the message on standard error, exit status 1), in the run-time panic of a
  nil pointer dereference (\<open>Panic\<close>, exit status 2), or inside \<^verbatim>\<open>flag.Parse\<close>: on
  \<^verbatim>\<open>-h\<close> or \<^verbatim>\<open>-help\<close> it prints the usage on standard error and exits with status 0
  (\<open>Usage\<close>), on any other error of the command line it prints the error and the usage and
  exits with status 2 (\<open>FlagError\<close>).
\<close>

datatype outcome = Exit0 | Fatal string | Panic | Usage | FlagError string

definition Getenv :: "world \<Rightarrow> string \<Rightarrow> string" where
  "Getenv w k = (case environ w k of None \<Rightarrow> [] | Some v \<Rightarrow> v)"

definition Output :: "world \<Rightarrow> string list \<Rightarrow> event list \<times> (string + string)" where
  "Output w args = ([Exec (''git'' # args)], git w args)"

definition after :: "event list \<Rightarrow> event list \<times> outcome \<Rightarrow> event list \<times> outcome" where
  "after t r = (t @ fst r, snd r)"

section \<open>The structs\<close>

record PullRequest_pr =
  Title :: string
  Body :: string
  Head :: string
  Base :: string

record PullRequest = PullRequest_pr +
  Draft :: bool

text \<open>
  \<^verbatim>\<open>json.Marshal\<close> writes a Go string as a JSON string of the same text, except that
  every byte that does not start a valid UTF-8 encoding is written as U+FFFD. Validity is
  that of \<^verbatim>\<open>utf8.DecodeRuneInString\<close>: the first byte gives the length of the sequence
  (\<open>seqLen\<close>, 0 for a byte that cannot start one) and the range accepted for the second
  byte (\<open>acceptLo\<close>, \<open>acceptHi\<close>: no overlong forms, no surrogates, nothing above
  U+10FFFF); the later bytes are continuation bytes. \<open>runeWidth s\<close> is the width of the
  valid sequence at the start of \<open>s\<close>, 0 when there is none. \<open>toValidUTF8 s\<close> is the
  text of the JSON string written for \<open>s\<close>, in UTF-8, and \<open>ValidString\<close> is
  \<^verbatim>\<open>utf8.ValidString\<close>.
\<close>

definition inRange :: "nat \<Rightarrow> nat \<Rightarrow> char \<Rightarrow> bool" where
  "inRange lo hi c = (lo \<le> of_char c \<and> (of_char c :: nat) \<le> hi)"

definition seqLen :: "char \<Rightarrow> nat" where
  "seqLen c0 =
     (if inRange 0x00 0x7F c0 then 1
      else if inRange 0xC2 0xDF c0 then 2
      else if inRange 0xE0 0xEF c0 then 3
      else if inRange 0xF0 0xF4 c0 then 4
      else 0)"

definition acceptLo :: "char \<Rightarrow> nat" where
  "acceptLo c0 = (if c0 = CHR 0xE0 then 0xA0 else if c0 = CHR 0xF0 then 0x90 else 0x80)"

definition acceptHi :: "char \<Rightarrow> nat" where
  "acceptHi c0 = (if c0 = CHR 0xED then 0x9F else if c0 = CHR 0xF4 then 0x8F else 0xBF)"

definition runeWidth :: "string \<Rightarrow> nat" where
  "runeWidth s =
     (case s of
        [] \<Rightarrow> 0
      | c0 # r \<Rightarrow>
          if seqLen c0 \<le> 1 then seqLen c0
          else if length r < seqLen c0 - 1 then 0
          else if inRange (acceptLo c0) (acceptHi c0) (r ! 0)
                  \<and> list_all (inRange 0x80 0xBF) (take (seqLen c0 - 2) (drop 1 r))
          then seqLen c0
          else 0)"

function toValidUTF8 :: "string \<Rightarrow> string" where
  "toValidUTF8 [] = []"
| "toValidUTF8 (c # cs) =
     (if runeWidth (c # cs) = 0 then [CHR 0xEF, CHR 0xBF, CHR 0xBD] @ toValidUTF8 cs
      else take (runeWidth (c # cs)) (c # cs)
           @ toValidUTF8 (drop (runeWidth (c # cs) - 1) cs))"
  by pat_completeness auto
termination
  by (relation "measure length") simp_all

function ValidString :: "string \<Rightarrow> bool" where
  "ValidString [] = True"
| "ValidString (c # cs) =
     (runeWidth (c # cs) \<noteq> 0 \<and> ValidString (drop (runeWidth (c # cs) - 1) cs))"
  by pat_completeness auto
termination
  by (relation "measure length") simp_all

text \<open>
  \<^verbatim>\<open>json.Marshal\<close> of the two structs, as the JSON object's members in the order of the
  fields; a \<open>JString\<close> holds the text of the JSON string, which is that of the field with
  invalid UTF-8 replaced. The call cannot fail on a struct of strings and booleans. The
  escapes of the encoding (quotes, control characters, \<^verbatim>\<open><\<close>, \<^verbatim>\<open>>\<close>, \<^verbatim>\<open>&\<close>, U+2028,
  U+2029) do not change the text of a string and are not modelled.
\<close>

definition Marshal_pr :: "PullRequest_pr \<Rightarrow> (string \<times> json) list" where
  "Marshal_pr pr =
     [(''title'', JString (toValidUTF8 (Title pr))), (''body'', JString (toValidUTF8 (Body pr))),
      (''head'', JString (toValidUTF8 (Head pr))), (''base'', JString (toValidUTF8 (Base pr)))]"

definition Marshal :: "PullRequest \<Rightarrow> (string \<times> json) list" where
  "Marshal pr =
     [(''title'', JString (toValidUTF8 (Title pr))), (''body'', JString (toValidUTF8 (Body pr))),
      (''head'', JString (toValidUTF8 (Head pr))), (''base'', JString (toValidUTF8 (Base pr))),
      (''draft'', JBool (Draft pr))]"

section \<open>The command line\<close>

text \<open>
  \<^verbatim>\<open>flag.Parse()\<close> is the first statement of both entry points. Both define the two
  string flags \<^verbatim>\<open>issue\<close> and \<^verbatim>\<open>base\<close> and parse with \<^verbatim>\<open>flag.ExitOnError\<close>. \<open>Parse\<close> is
  the loop of \<^verbatim>\<open>FlagSet.Parse\<close> over \<^verbatim>\<open>parseOne\<close>: it stops at the first argument that
  is not a flag and at \<^verbatim>\<open>--\<close>; a flag is written with one or two dashes, its value
  after \<^verbatim>\<open>=\<close> or as the next argument. \<open>actual\<close> collects the flags set, the latest
  first. \<open>ErrHelp\<close> is the result for \<^verbatim>\<open>-h\<close> and \<^verbatim>\<open>-help\<close>, \<open>Failed\<close> carries the error
  text of any other failure. A string flag accepts every value.
\<close>

datatype parse_result = Parsed "(string \<times> string) list" | ErrHelp | Failed string

fun Parse :: "string list \<Rightarrow> (string \<times> string) list \<Rightarrow> parse_result" where
  "Parse [] actual = Parsed actual"
| "Parse (s # rest) actual =
     (if length s < 2 \<or> s ! 0 \<noteq> CHR ''-'' then Parsed actual
      else if s = ''--'' then Parsed actual
      else
        (let name = drop (if s ! 1 = CHR ''-'' then 2 else 1) s in
         if name = [] \<or> name ! 0 = CHR ''-'' \<or> name ! 0 = CHR ''='' then
           Failed (''bad flag syntax: '' @ s)
         else
           (let hasValue = (CHR ''='' \<in> set name);
                value = drop 1 (dropWhile (\<lambda>c. c \<noteq> CHR ''='') name);
                name = takeWhile (\<lambda>c. c \<noteq> CHR ''='') name
            in if name \<noteq> ''issue'' \<and> name \<noteq> ''base'' then
                 (if name = ''help'' \<or> name = ''h'' then ErrHelp
                  else Failed (''flag provided but not defined: -'' @ name))
               else if hasValue then Parse rest ((name, value) # actual)
               else
                 (case rest of
                    [] \<Rightarrow> Failed (''flag needs an argument: -'' @ name)
                  | v # rest' \<Rightarrow> Parse rest' ((name, v) # actual)))))"

definition flag_Parse :: "world \<Rightarrow> parse_result" where
  "flag_Parse w = Parse (Args w) []"

text \<open>
  The value of a flag variable after \<^verbatim>\<open>flag.Parse\<close>: the latest value set on the command
  line, or the default given to \<^verbatim>\<open>flag.String\<close>. (When the command line does not parse,
  the run ends inside \<^verbatim>\<open>flag.Parse\<close> and the variables are never read.)
\<close>

definition flagValue :: "world \<Rightarrow> string \<Rightarrow> string \<Rightarrow> string" where
  "flagValue w name dflt =
     (case flag_Parse w of
        Parsed actual \<Rightarrow> (case map_of actual name of None \<Rightarrow> dflt | Some v \<Rightarrow> v)
      | _ \<Rightarrow> dflt)"

section \<open>The entry point that discovers the default branch\<close>

text \<open>
  The flags of this entry point both default to the empty string (after
  \<^verbatim>\<open>baseBranch, err = getDefaultBranch()\<close> the variable \<^verbatim>\<open>baseBranch\<close> no longer points to
  the flag; that pointer is \<open>baseBranch'\<close> below). A Go pointer result
  \<^verbatim>\<open>*string\<close> is a \<^typ>\<open>string option\<close> (\<open>None\<close> is nil), an \<^verbatim>\<open>error\<close> result a
  \<^typ>\<open>string option\<close> holding the message (\<open>None\<close> is the nil error).
\<close>

definition jiraIssueKey :: "world \<Rightarrow> string" where
  "jiraIssueKey w = flagValue w ''issue'' []"

definition baseBranch :: "world \<Rightarrow> string" where
  "baseBranch w = flagValue w ''base'' []"

definition getGitHubRepoDetails ::
  "world \<Rightarrow> event list \<times> string option \<times> string option \<times> string option" where
  "getGitHubRepoDetails w =
     (case Output w [''config'', ''--get'', ''remote.origin.url''] of (t, r) \<Rightarrow>
      (t, case r of
            Inl err \<Rightarrow> (None, None, Some (''failed to fetch remote origin URL: '' @ err))
          | Inr output \<Rightarrow>
              (let url = TrimSpace output in
               case ownerRepo url of (owner, repo) \<Rightarrow>
                 if owner = [] \<or> repo = []
                 then (None, None,
                       Some (''could not parse owner and repo from URL: '' @ url))
                 else (Some owner, Some repo, None))))"

definition getCurrentBranch :: "world \<Rightarrow> event list \<times> string option \<times> string option" where
  "getCurrentBranch w =
     (case Output w [''rev-parse'', ''--abbrev-ref'', ''HEAD''] of (t, r) \<Rightarrow>
      (t, case r of
            Inl err \<Rightarrow> (None, Some (''failed to get current branch: '' @ err))
          | Inr output \<Rightarrow> (Some (TrimSpace output), None)))"

definition getDefaultBranch :: "world \<Rightarrow> event list \<times> string option \<times> string option" where
  "getDefaultBranch w =
     (case Output w [''symbolic-ref'', ''refs/remotes/origin/HEAD''] of (t, r) \<Rightarrow>
      (t, case r of
            Inl err \<Rightarrow> (None, Some (''failed to get default branch: '' @ err))
          | Inr output \<Rightarrow>
              (let parts = Split (TrimSpace output) CHR ''/'' in
               if length parts > 0 then (Some (parts ! (length parts - 1)), None)
               else (None,
                     Some (''could not parse default branch from output: '' @ output)))))"

text \<open>
  The request \<^verbatim>\<open>getJiraIssueTitle\<close> builds: \<^verbatim>\<open>http.NewRequest("GET", url, nil)\<close>,
  \<^verbatim>\<open>SetBasicAuth\<close> and the \<^verbatim>\<open>Accept\<close> header. The credentials of the basic
  authentication are kept as a pair, not encoded into the header.
\<close>

definition jiraRequest :: "string \<Rightarrow> string \<Rightarrow> string \<Rightarrow> request" where
  "jiraRequest url jiraEmail jiraAPIToken =
     \<lparr>Method = ''GET'', URL = url, Header = [(''Accept'', ''application/json'')],
      BasicAuth = Some (jiraEmail, jiraAPIToken), Payload = None\<rparr>"

definition getJiraIssueTitle ::
  "world \<Rightarrow> string \<Rightarrow> string \<Rightarrow> string \<Rightarrow> string
     \<Rightarrow> event list \<times> string option \<times> string option" where
  "getJiraIssueTitle w jiraBaseURL jiraEmail jiraAPIToken issueKey =
     (let url = jiraBaseURL @ ''/rest/api/3/issue/'' @ issueKey in
      case NewRequest_err w ''GET'' url of
        Some err \<Rightarrow> ([], None, Some (''Error creating JIRA request: '' @ err))
      | None \<Rightarrow>
          (let req = jiraRequest url jiraEmail jiraAPIToken in
           case transport w req of
             Inl err \<Rightarrow> ([Do req], None, Some (''Error fetching JIRA issue: '' @ err))
           | Inr resp \<Rightarrow>
               if StatusCode resp \<noteq> 200
               then ([Do req], None,
                     Some (''Failed to fetch JIRA issue. Status: '' @ Status resp))
               else (case ReadErr resp of
                       Some err \<Rightarrow>
                         ([Do req], None,
                          Some (''Error reading JIRA response body: '' @ err))
                     | None \<Rightarrow>
                         (case Unmarshal_JIRAIssue w (RespBody resp) of
                            Inl err \<Rightarrow>
                              ([Do req], None,
                               Some (''Error unmarshaling JIRA response: '' @ err))
                          | Inr summary \<Rightarrow> ([Do req], Some summary, None)))))"

text \<open>
  \<^verbatim>\<open>main\<close> is written in four pieces, cut where the source checks an error and calls
  \<^verbatim>\<open>log.Fatalf\<close>. \<open>main_submit\<close> is the end of \<^verbatim>\<open>main\<close>, from \<^verbatim>\<open>http.NewRequest("POST", ...)\<close>
  on: the body is read, its error dropped, before the status is looked at.
  \<open>githubRequest\<close> is the request with its three headers, under the keys
  \<^verbatim>\<open>Header.Set\<close> stores: it puts a key in canonical form, so \<^verbatim>\<open>X-GitHub-Api-Version\<close>
  is stored as \<^verbatim>\<open>X-Github-Api-Version\<close>.
\<close>

definition githubRequest :: "string \<Rightarrow> string \<Rightarrow> (string \<times> json) list \<Rightarrow> request" where
  "githubRequest githubToken githubURL prJSON =
     \<lparr>Method = ''POST'', URL = githubURL,
      Header = [(''Authorization'', ''Bearer '' @ githubToken),
                (''Accept'', ''application/vnd.github+json''),
                (''X-Github-Api-Version'', ''2022-11-28'')],
      BasicAuth = None, Payload = Some prJSON\<rparr>"

definition main_submit ::
  "world \<Rightarrow> string \<Rightarrow> string \<Rightarrow> (string \<times> json) list \<Rightarrow> event list \<times> outcome" where
  "main_submit w githubToken githubURL prJSON =
     (case NewRequest_err w ''POST'' githubURL of
        Some err \<Rightarrow> ([], Fatal (''Error creating GitHub request: '' @ err))
      | None \<Rightarrow>
          (let req = githubRequest githubToken githubURL prJSON in
           case transport w req of
             Inl err \<Rightarrow> ([Do req], Fatal (''Error sending GitHub PR request: '' @ err))
           | Inr resp \<Rightarrow>
               if StatusCode resp = 201
               then ([Do req,
                      Stdout ''Pull request created successfully!\<newline>'',
                      Stdout (Unmarshal_PullRequestResponse w (RespBody resp) @ ''\<newline>'')],
                     Exit0)
               else ([Do req],
                     Fatal (''Failed to create pull request. Status: '' @ Status resp
                            @ '', Response: '' @ RespBody resp))))"

text \<open>
  From the call of \<^verbatim>\<open>getJiraIssueTitle\<close> to \<^verbatim>\<open>json.Marshal\<close>. \<open>sourceBranch\<close> was
  dereferenced before; \<open>baseBranch'\<close> is the pointer the base branch is read through
  when the struct is built.
\<close>

definition main_issue ::
  "world \<Rightarrow> string \<Rightarrow> string option \<Rightarrow> string \<Rightarrow> string \<Rightarrow> event list \<times> outcome" where
  "main_issue w sourceBranch baseBranch' githubOwner githubRepo =
     (let jiraBaseURL = Getenv w ''JIRA_BASE_URL'' in
      case getJiraIssueTitle w jiraBaseURL (Getenv w ''JIRA_EMAIL'')
             (Getenv w ''JIRA_API_TOKEN'') (jiraIssueKey w) of
        (t, prTitle, err) \<Rightarrow>
          (case err of
             Some e \<Rightarrow> (t, Fatal (''Error fetching JIRA issue: '' @ e))
           | None \<Rightarrow>
               (case prTitle of
                  None \<Rightarrow> (t, Panic)
                | Some title \<Rightarrow>
                    (let t' = t @ [Stdout (''Fetched JIRA issue title: '' @ title @ ''\<newline>'')];
                         githubURL = ''https://api.github.com/repos/'' @ githubOwner
                                     @ ''/'' @ githubRepo @ ''/pulls''
                     in case baseBranch' of
                          None \<Rightarrow> (t', Panic)
                        | Some base \<Rightarrow>
                            after t'
                              (main_submit w (Getenv w ''GITHUB_TOKEN'') githubURL
                                 (Marshal \<lparr>Title = ''['' @ jiraIssueKey w @ ''] '' @ title,
                                           Body = jiraBaseURL @ ''/browse/'' @ jiraIssueKey w,
                                           Head = sourceBranch, Base = base,
                                           Draft = True\<rparr>))))))"

definition main_repo :: "world \<Rightarrow> string \<Rightarrow> string option \<Rightarrow> event list \<times> outcome" where
  "main_repo w sourceBranch baseBranch' =
     (case getGitHubRepoDetails w of
        (t, githubOwner, githubRepo, err) \<Rightarrow>
          (case err of
             Some e \<Rightarrow> (t, Fatal (''Error fetching GitHub repo details: '' @ e))
           | None \<Rightarrow>
               (case githubOwner of
                  None \<Rightarrow> (t, Panic)
                | Some owner \<Rightarrow>
                    (case githubRepo of
                       None \<Rightarrow> (t, Panic)
                     | Some repo \<Rightarrow>
                         after (t @ [Stdout (''GitHub Owner: '' @ owner @ '', Repo: '' @ repo
                                             @ ''\<newline>'')])
                           (main_issue w sourceBranch baseBranch' owner repo)))))"

text \<open>
  The branch step. \<^verbatim>\<open>err\<close> holds the error of \<^verbatim>\<open>getCurrentBranch\<close>; when the base
  flag is empty, the assignment \<^verbatim>\<open>baseBranch, err = getDefaultBranch()\<close> overwrites it.
  The single test of \<^verbatim>\<open>err\<close> comes after, and \<^verbatim>\<open>*sourceBranch\<close> is read right after
  the test.
\<close>

definition main_branches :: "world \<Rightarrow> event list \<times> outcome" where
  "main_branches w =
     (case getCurrentBranch w of
        (t1, sourceBranch, err1) \<Rightarrow>
          (case (if baseBranch w = [] then getDefaultBranch w
                 else ([], Some (baseBranch w), err1)) of
             (t2, baseBranch', err) \<Rightarrow>
               (case err of
                  Some e \<Rightarrow> (t1 @ t2, Fatal (''Error getting current branch: '' @ e))
                | None \<Rightarrow>
                    (case sourceBranch of
                       None \<Rightarrow> (t1 @ t2, Panic)
                     | Some sb \<Rightarrow>
                         after (t1 @ t2
                                @ [Stdout (''Using current branch as source branch: '' @ sb
                                           @ ''\<newline>'')])
                           (main_repo w sb baseBranch')))))"

text \<open>
  The start of \<^verbatim>\<open>main\<close>: \<^verbatim>\<open>flag.Parse()\<close>, which may end the run, then the test of the
  four environment variables, then the test of the issue key.
\<close>

definition main :: "world \<Rightarrow> event list \<times> outcome" where
  "main w =
     (case flag_Parse w of
        ErrHelp \<Rightarrow> ([], Usage)
      | Failed err \<Rightarrow> ([], FlagError err)
      | Parsed actual \<Rightarrow>
          if Getenv w ''JIRA_BASE_URL'' = [] \<or> Getenv w ''JIRA_EMAIL'' = []
             \<or> Getenv w ''JIRA_API_TOKEN'' = [] \<or> Getenv w ''GITHUB_TOKEN'' = []
          then ([], Fatal ''Error: Required environment variables (JIRA_BASE_URL, JIRA_EMAIL, JIRA_API_TOKEN, GITHUB_TOKEN) are not set.'')
          else if jiraIssueKey w = []
          then ([], Fatal ''Error: The JIRA issue key must be provided using the -issue flag.'')
          else main_branches w)"

section \<open>The entry point of cmd/cli/pr/main.go\<close>

text \<open>
  Here \<^verbatim>\<open>-base\<close> defaults to \<^verbatim>\<open>"main"\<close>, there is no \<^verbatim>\<open>getDefaultBranch\<close>, the helper
  functions return strings (empty on error) instead of pointers, and
  \<^verbatim>\<open>getJiraIssueTitle\<close> is the same text as above. The definitions carry the suffix
  \<open>_pr\<close>.
\<close>

definition baseBranch_pr :: "world \<Rightarrow> string" where
  "baseBranch_pr w = flagValue w ''base'' ''main''"

definition getGitHubRepoDetails_pr ::
  "world \<Rightarrow> event list \<times> string \<times> string \<times> string option" where
  "getGitHubRepoDetails_pr w =
     (case Output w [''config'', ''--get'', ''remote.origin.url''] of (t, r) \<Rightarrow>
      (t, case r of
            Inl err \<Rightarrow> ([], [], Some (''failed to fetch remote origin URL: '' @ err))
          | Inr output \<Rightarrow>
              (let url = TrimSpace output in
               case ownerRepo url of (owner, repo) \<Rightarrow>
                 if owner = [] \<or> repo = []
                 then ([], [], Some (''could not parse owner and repo from URL: '' @ url))
                 else (owner, repo, None))))"

definition getCurrentBranch_pr :: "world \<Rightarrow> event list \<times> string \<times> string option" where
  "getCurrentBranch_pr w =
     (case Output w [''rev-parse'', ''--abbrev-ref'', ''HEAD''] of (t, r) \<Rightarrow>
      (t, case r of
            Inl err \<Rightarrow> ([], Some (''failed to get current branch: '' @ err))
          | Inr output \<Rightarrow> (TrimSpace output, None)))"

text \<open>The end of this \<^verbatim>\<open>main\<close>: the body is read only when the status is not 201.\<close>

definition githubRequest_pr :: "string \<Rightarrow> string \<Rightarrow> (string \<times> json) list \<Rightarrow> request" where
  "githubRequest_pr githubToken githubURL prJSON =
     \<lparr>Method = ''POST'', URL = githubURL,
      Header = [(''Authorization'', ''Bearer '' @ githubToken),
                (''Content-Type'', ''application/json'')],
      BasicAuth = None, Payload = Some prJSON\<rparr>"

definition main_submit_pr ::
  "world \<Rightarrow> string \<Rightarrow> string \<Rightarrow> (string \<times> json) list \<Rightarrow> event list \<times> outcome" where
  "main_submit_pr w githubToken githubURL prJSON =
     (case NewRequest_err w ''POST'' githubURL of
        Some err \<Rightarrow> ([], Fatal (''Error creating GitHub request: '' @ err))
      | None \<Rightarrow>
          (let req = githubRequest_pr githubToken githubURL prJSON in
           case transport w req of
             Inl err \<Rightarrow> ([Do req], Fatal (''Error sending GitHub PR request: '' @ err))
           | Inr resp \<Rightarrow>
               if StatusCode resp = 201
               then ([Do req, Stdout ''Pull request created successfully!\<newline>''], Exit0)
               else ([Do req],
                     Fatal (''Failed to create pull request. Status: '' @ Status resp
                            @ '', Response: '' @ RespBody resp))))"

definition main_issue_pr ::
  "world \<Rightarrow> string \<Rightarrow> string \<Rightarrow> string \<Rightarrow> event list \<times> outcome" where
  "main_issue_pr w sourceBranch githubOwner githubRepo =
     (let jiraBaseURL = Getenv w ''JIRA_BASE_URL'' in
      case getJiraIssueTitle w jiraBaseURL (Getenv w ''JIRA_EMAIL'')
             (Getenv w ''JIRA_API_TOKEN'') (jiraIssueKey w) of
        (t, prTitle, err) \<Rightarrow>
          (case err of
             Some e \<Rightarrow> (t, Fatal (''Error fetching JIRA issue: '' @ e))
           | None \<Rightarrow>
               (case prTitle of
                  None \<Rightarrow> (t, Panic)
                | Some title \<Rightarrow>
                    after (t @ [Stdout (''Fetched JIRA issue title: '' @ title @ ''\<newline>'')])
                      (main_submit_pr w (Getenv w ''GITHUB_TOKEN'')
                         (''https://api.github.com/repos/'' @ githubOwner @ ''/''
                          @ githubRepo @ ''/pulls'')
                         (Marshal_pr \<lparr>Title = title,
                                      Body = jiraBaseURL @ ''/browse/'' @ jiraIssueKey w
                                             @ ''.'',
                                      Head = sourceBranch, Base = baseBranch_pr w\<rparr>)))))"

definition main_repo_pr :: "world \<Rightarrow> string \<Rightarrow> event list \<times> outcome" where
  "main_repo_pr w sourceBranch =
     (case getGitHubRepoDetails_pr w of
        (t, githubOwner, githubRepo, err) \<Rightarrow>
          (case err of
             Some e \<Rightarrow> (t, Fatal (''Error fetching GitHub repo details: '' @ e))
           | None \<Rightarrow>
               after (t @ [Stdout (''GitHub Owner: '' @ githubOwner @ '', Repo: ''
                                   @ githubRepo @ ''\<newline>'')])
                 (main_issue_pr w sourceBranch githubOwner githubRepo)))"

definition main_pr :: "world \<Rightarrow> event list \<times> outcome" where
  "main_pr w =
     (case flag_Parse w of
        ErrHelp \<Rightarrow> ([], Usage)
      | Failed err \<Rightarrow> ([], FlagError err)
      | Parsed actual \<Rightarrow>
          if Getenv w ''JIRA_BASE_URL'' = [] \<or> Getenv w ''JIRA_EMAIL'' = []
             \<or> Getenv w ''JIRA_API_TOKEN'' = [] \<or> Getenv w ''GITHUB_TOKEN'' = []
          then ([], Fatal ''Error: Required environment variables (JIRA_BASE_URL, JIRA_EMAIL, JIRA_API_TOKEN, GITHUB_TOKEN) are not set.'')
          else if jiraIssueKey w = []
          then ([], Fatal ''Error: The JIRA issue key must be provided using the -issue flag.'')
          else
            (case getCurrentBranch_pr w of
               (t, sourceBranch, err) \<Rightarrow>
                 (case err of
                    Some e \<Rightarrow> (t, Fatal (''Error getting current branch: '' @ e))
                  | None \<Rightarrow>
                      after (t @ [Stdout (''Using current branch as source branch: ''
                                          @ sourceBranch @ ''\<newline>'')])
                        (main_repo_pr w sourceBranch))))"

section \<open>Reading a trace\<close>

text \<open>
  \<open>posts t\<close> are the POST requests of a trace, \<open>http_requests\<close> all its HTTP requests,
  \<open>spawned\<close> the command lines of the subprocesses it started, \<open>printed\<close> what it
  wrote to standard output. \<open>member\<close> reads a member of a JSON object.
\<close>

fun http_requests :: "event list \<Rightarrow> request list" where
  "http_requests [] = []"
| "http_requests (Do r # t) = r # http_requests t"
| "http_requests (_ # t) = http_requests t"

fun spawned :: "event list \<Rightarrow> string list list" where
  "spawned [] = []"
| "spawned (Exec c # t) = c # spawned t"
| "spawned (_ # t) = spawned t"

fun printed :: "event list \<Rightarrow> string list" where
  "printed [] = []"
| "printed (Stdout s # t) = s # printed t"
| "printed (_ # t) = printed t"

definition posts :: "event list \<Rightarrow> request list" where
  "posts t = filter (\<lambda>r. Method r = ''POST'') (http_requests t)"

definition member :: "request \<Rightarrow> string \<Rightarrow> json option" where
  "member r k = (case Payload r of None \<Rightarrow> None | Some obj \<Rightarrow> map_of obj k)"

section \<open>Sample worlds\<close>

text \<open>
  A world in which every step succeeds: the command line is \<^verbatim>\<open>-issue PROJ-42\<close>, the
  checkout is on \<^verbatim>\<open>feature/login\<close>, the
  remote HEAD is \<^verbatim>\<open>main\<close>, JIRA answers 200 with the summary \<^verbatim>\<open>Fix login bug\<close>,
  GitHub answers 201. \<open>sample_git\<close> fails for any other command line.
\<close>

definition sample_git :: "string list \<Rightarrow> string + string" where
  "sample_git args =
     (if args = [''rev-parse'', ''--abbrev-ref'', ''HEAD''] then Inr ''feature/login\<newline>''
      else if args = [''symbolic-ref'', ''refs/remotes/origin/HEAD'']
      then Inr ''refs/remotes/origin/main\<newline>''
      else if args = [''config'', ''--get'', ''remote.origin.url'']
      then Inr ''https://github.com/jmoney/create-pr-from-jira.git\<newline>''
      else Inl ''exit status 1'')"

definition sample_transport :: "request \<Rightarrow> string + response" where
  "sample_transport r =
     (if Method r = ''GET''
      then Inr \<lparr>StatusCode = 200, Status = ''200 OK'', RespBody = ''{issue}'', ReadErr = None\<rparr>
      else Inr \<lparr>StatusCode = 201, Status = ''201 Created'', RespBody = ''{pull}'',
                ReadErr = None\<rparr>)"

definition sample_env :: "string \<rightharpoonup> string" where
  "sample_env =
     [''JIRA_BASE_URL'' \<mapsto> ''https://jira.example.com'', ''JIRA_EMAIL'' \<mapsto> ''dev@example.com'',
      ''JIRA_API_TOKEN'' \<mapsto> ''jt'', ''GITHUB_TOKEN'' \<mapsto> ''gt'']"

definition sample_world :: world where
  "sample_world =
     \<lparr>Args = [''-issue'', ''PROJ-42''], environ = sample_env,
      git = sample_git, NewRequest_err = (\<lambda>m u. None), transport = sample_transport,
      Unmarshal_JIRAIssue = (\<lambda>b. Inr ''Fix login bug''),
      Unmarshal_PullRequestResponse =
        (\<lambda>b. ''https://api.github.com/repos/jmoney/create-pr-from-jira/pulls/7'')\<rparr>"

text \<open>
  \<open>remote_world out\<close> is the sample world with \<open>out\<close> as the output of
  \<^verbatim>\<open>git config --get remote.origin.url\<close>. In \<open>unborn_head_world\<close> the checkout has no
  commit on its branch yet: \<^verbatim>\<open>git rev-parse --abbrev-ref HEAD\<close> exits with status 128,
  while the remote HEAD resolves as before.
\<close>

definition remote_world :: "string \<Rightarrow> world" where
  "remote_world out =
     sample_world\<lparr>git := (\<lambda>args. if args = [''config'', ''--get'', ''remote.origin.url'']
                                  then Inr out else sample_git args)\<rparr>"

definition unborn_head_git :: "string list \<Rightarrow> string + string" where
  "unborn_head_git args =
     (if args = [''rev-parse'', ''--abbrev-ref'', ''HEAD''] then Inl ''exit status 128''
      else sample_git args)"

definition unborn_head_world :: world where
  "unborn_head_world = sample_world\<lparr>git := unborn_head_git\<rparr>"

text \<open>In \<open>no_git_world\<close> every git command fails.\<close>

definition no_git_world :: world where
  "no_git_world = sample_world\<lparr>git := (\<lambda>args. Inl ''exit status 128'')\<rparr>"

text \<open>
  A remote for the parser: an HTTPS URL with a single path segment after the host.
\<close>

definition one_segment_world :: world where
  "one_segment_world = remote_world ''https://github.com/owner\<newline>''"

text \<open>
  The subprocesses of the branch step of the entry point that discovers the default
  branch: the current-branch query, and the default-branch query when the base flag is
  empty. \<open>env_missing\<close> is the test of the first check of \<^verbatim>\<open>main\<close>, on the four
  environment variables.
\<close>

definition branch_queries :: "world \<Rightarrow> event list" where
  "branch_queries w =
     Exec [''git'', ''rev-parse'', ''--abbrev-ref'', ''HEAD'']
     # (if baseBranch w = [] then [Exec [''git'', ''symbolic-ref'', ''refs/remotes/origin/HEAD'']]
        else [])"

definition env_missing :: "world \<Rightarrow> bool" where
  "env_missing w =
     (Getenv w ''JIRA_BASE_URL'' = [] \<or> Getenv w ''JIRA_EMAIL'' = []
      \<or> Getenv w ''JIRA_API_TOKEN'' = [] \<or> Getenv w ''GITHUB_TOKEN'' = [])"

text \<open>
  Further worlds: the base flag given as \<^verbatim>\<open>develop\<close>, and given as the empty string;
  JIRA answering 404; GitHub answering 422; a configuration without \<^verbatim>\<open>JIRA_EMAIL\<close> and
  without the issue flag, and one without the issue flag only.
\<close>

definition develop_world :: world where
  "develop_world = sample_world\<lparr>Args := [''-issue'', ''PROJ-42'', ''-base'', ''develop'']\<rparr>"

definition empty_base_world :: world where
  "empty_base_world = sample_world\<lparr>Args := [''-issue'', ''PROJ-42'', ''-base'', []]\<rparr>"

definition jira_404_transport :: "request \<Rightarrow> string + response" where
  "jira_404_transport r =
     (if Method r = ''GET''
      then Inr \<lparr>StatusCode = 404, Status = ''404 Not Found'', RespBody = ''{errorMessages}'',
                ReadErr = None\<rparr>
      else sample_transport r)"

definition jira_404_world :: world where
  "jira_404_world = sample_world\<lparr>transport := jira_404_transport\<rparr>"

definition github_422_transport :: "request \<Rightarrow> string + response" where
  "github_422_transport r =
     (if Method r = ''POST''
      then Inr \<lparr>StatusCode = 422, Status = ''422 Unprocessable Entity'',
                RespBody = ''Validation Failed'', ReadErr = None\<rparr>
      else sample_transport r)"

definition github_422_world :: world where
  "github_422_world = sample_world\<lparr>transport := github_422_transport\<rparr>"

definition no_email_no_issue_world :: world where
  "no_email_no_issue_world =
     sample_world\<lparr>Args := [], environ := sample_env(''JIRA_EMAIL'' := None)\<rparr>"

definition no_issue_world :: world where
  "no_issue_world = sample_world\<lparr>Args := []\<rparr>"

text \<open>
  Command lines that \<^verbatim>\<open>flag.Parse\<close> does not accept: \<^verbatim>\<open>-h\<close>, and a misspelt flag. And one
  whose base value is not valid UTF-8: the bytes 64 65 76 FF.
\<close>

definition help_world :: world where
  "help_world = sample_world\<lparr>Args := [''-h'']\<rparr>"

definition undefined_flag_world :: world where
  "undefined_flag_world = sample_world\<lparr>Args := [''-isue'', ''PROJ-42'']\<rparr>"

definition invalid_base_world :: world where
  "invalid_base_world =
     sample_world\<lparr>Args := [''-issue'', ''PROJ-42'', ''-base'',
                            [CHR 0x64, CHR 0x65, CHR 0x76, CHR 0xFF]]\<rparr>"

text \<open>
  The two messages of the configuration check, and \<open>mentions msg name\<close>: the name
  occurs in the message.
\<close>

definition env_message :: string where
  "env_message = ''Error: Required environment variables (JIRA_BASE_URL, JIRA_EMAIL, JIRA_API_TOKEN, GITHUB_TOKEN) are not set.''"

definition issue_message :: string where
  "issue_message = ''Error: The JIRA issue key must be provided using the -issue flag.''"

fun mentions :: "string \<Rightarrow> string \<Rightarrow> bool" where
  "mentions [] name = (name = [])"
| "mentions (c # cs) name = (HasPrefix (c # cs) name \<or> mentions cs name)"

text \<open>The title and the body of a request's payload.\<close>

definition title_body :: "request \<Rightarrow> json option \<times> json option" where
  "title_body r = (member r ''title'', member r ''body'')"

section \<open>Properties of the library model\<close>

lemma Split_nonempty: "Split s sep \<noteq> []"
  by (induction s) (auto split: list.splits)

lemma Split_no_sep: "sep \<notin> set a \<Longrightarrow> Split a sep = [a]"
  by (induction a) auto

lemma Split_at_sep: "Split (a @ sep # b) sep = Split a sep @ Split b sep"
proof (induction a)
  case Nil
  show ?case by simp
next
  case (Cons c a)
  show ?case
  proof (cases "c = sep")
    case True
    with Cons show ?thesis by simp
  next
    case False
    obtain p ps where "Split a sep = p # ps"
      using Split_nonempty [of a sep] by (cases "Split a sep") auto
    with False Cons show ?thesis by simp
  qed
qed

section \<open>Properties of the JSON text of a string\<close>

lemma runeWidth_le: "runeWidth s \<le> length s"
proof (cases s)
  case Nil
  then show ?thesis by (simp add: runeWidth_def)
next
  case (Cons c0 r)
  then show ?thesis by (auto simp: runeWidth_def)
qed

lemma runeWidth_append:
  assumes "runeWidth s \<noteq> 0"
  shows "runeWidth (s @ t) = runeWidth s"
proof (cases s)
  case Nil
  with assms show ?thesis by (simp add: runeWidth_def)
next
  case (Cons c0 r)
  show ?thesis
  proof (cases "seqLen c0 \<le> 1")
    case True
    with Cons show ?thesis by (simp add: runeWidth_def)
  next
    case False
    with assms Cons have l: "\<not> length r < seqLen c0 - 1"
      by (auto simp: runeWidth_def split: if_splits)
    with False have "r \<noteq> []"
      by auto
    with l have "(r @ t) ! 0 = r ! 0"
      and "take (seqLen c0 - 2) (drop 1 (r @ t)) = take (seqLen c0 - 2) (drop 1 r)"
      by (simp_all add: nth_append)
    with False l Cons show ?thesis
      by (simp add: runeWidth_def)
  qed
qed

lemma take_prefix: "n \<le> length xs \<Longrightarrow> take n (xs @ ys) = take n xs"
  by simp

lemma drop_prefix: "n \<le> length xs \<Longrightarrow> drop n (xs @ ys) = drop n xs @ ys"
  by simp

text \<open>A string that is valid UTF-8 is written unchanged, also as the start of a longer one.\<close>

lemma toValidUTF8_append: "ValidString a \<Longrightarrow> toValidUTF8 (a @ b) = a @ toValidUTF8 b"
proof (induction a rule: ValidString.induct)
  case 1
  show ?case by simp
next
  case (2 c cs)
  let ?n = "runeWidth (c # cs)"
  from 2(2) have n: "?n \<noteq> 0" and v: "ValidString (drop (?n - 1) cs)"
    by simp_all
  have w: "runeWidth ((c # cs) @ b) = ?n"
    using n by (rule runeWidth_append)
  have le: "?n \<le> length (c # cs)"
    by (rule runeWidth_le)
  have d: "drop (?n - 1) cs = drop ?n (c # cs)" "drop (?n - 1) (cs @ b) = drop ?n ((c # cs) @ b)"
    using n by (cases ?n; simp)+
  have "toValidUTF8 ((c # cs) @ b) =
          take ?n ((c # cs) @ b) @ toValidUTF8 (drop ?n ((c # cs) @ b))"
    using w n d(2) by simp
  also have "take ?n ((c # cs) @ b) = take ?n (c # cs)"
    using le by (rule take_prefix)
  also have "drop ?n ((c # cs) @ b) = drop ?n (c # cs) @ b"
    using le by (rule drop_prefix)
  also have "toValidUTF8 (drop ?n (c # cs) @ b) = drop ?n (c # cs) @ toValidUTF8 b"
    using 2(1) [OF v] d(1) by simp
  finally show ?case
    by simp
qed

lemma toValidUTF8_valid: "ValidString s \<Longrightarrow> toValidUTF8 s = s"
  using toValidUTF8_append [of s "[]"] by simp

declare toValidUTF8.simps [simp del] ValidString.simps [simp del]

section \<open>Properties of the command line\<close>

lemma flagValue_parsed:
  "flag_Parse w = Parsed actual \<Longrightarrow>
   flagValue w name dflt = (case map_of actual name of None \<Rightarrow> dflt | Some v \<Rightarrow> v)"
  by (simp add: flagValue_def)

lemma jiraIssueKey_parsed:
  assumes "jiraIssueKey w \<noteq> []"
  obtains actual where "flag_Parse w = Parsed actual"
  using assms by (cases "flag_Parse w") (simp_all add: jiraIssueKey_def flagValue_def)

lemma main_parsed:
  assumes "flag_Parse w = Parsed actual"
  shows "main w =
           (if env_missing w
            then ([], Fatal ''Error: Required environment variables (JIRA_BASE_URL, JIRA_EMAIL, JIRA_API_TOKEN, GITHUB_TOKEN) are not set.'')
            else if jiraIssueKey w = []
            then ([], Fatal ''Error: The JIRA issue key must be provided using the -issue flag.'')
            else main_branches w)"
  using assms by (simp add: main_def env_missing_def)

lemma main_pr_parsed:
  assumes "flag_Parse w = Parsed actual"
  shows "main_pr w =
           (if env_missing w
            then ([], Fatal ''Error: Required environment variables (JIRA_BASE_URL, JIRA_EMAIL, JIRA_API_TOKEN, GITHUB_TOKEN) are not set.'')
            else if jiraIssueKey w = []
            then ([], Fatal ''Error: The JIRA issue key must be provided using the -issue flag.'')
            else
              (case getCurrentBranch_pr w of
                 (t, sourceBranch, err) \<Rightarrow>
                   (case err of
                      Some e \<Rightarrow> (t, Fatal (''Error getting current branch: '' @ e))
                    | None \<Rightarrow>
                        after (t @ [Stdout (''Using current branch as source branch: ''
                                            @ sourceBranch @ ''\<newline>'')])
                          (main_repo_pr w sourceBranch))))"
  using assms by (simp add: main_pr_def env_missing_def)

section \<open>Properties of traces\<close>

lemma fst_after [simp]: "fst (after t r) = t @ fst r"
  by (simp add: after_def)

lemma snd_after [simp]: "snd (after t r) = snd r"
  by (simp add: after_def)

lemma http_requests_append [simp]:
  "http_requests (a @ b) = http_requests a @ http_requests b"
  by (induction a rule: http_requests.induct) simp_all

lemma spawned_append [simp]: "spawned (a @ b) = spawned a @ spawned b"
  by (induction a rule: spawned.induct) simp_all

lemma printed_append [simp]: "printed (a @ b) = printed a @ printed b"
  by (induction a rule: printed.induct) simp_all

lemma posts_append [simp]: "posts (a @ b) = posts a @ posts b"
  by (simp add: posts_def)

lemma posts_Nil [simp]: "posts [] = []"
  by (simp add: posts_def)

lemma posts_Exec [simp]: "posts (Exec c # t) = posts t"
  by (simp add: posts_def)

lemma posts_Stdout [simp]: "posts (Stdout s # t) = posts t"
  by (simp add: posts_def)

lemma posts_Do [simp]:
  "posts (Do r # t) = (if Method r = ''POST'' then r # posts t else posts t)"
  by (simp add: posts_def)

section \<open>The git queries\<close>

lemma getCurrentBranch_trace [simp]:
  "fst (getCurrentBranch w) = [Exec [''git'', ''rev-parse'', ''--abbrev-ref'', ''HEAD'']]"
  by (simp add: getCurrentBranch_def Output_def)

lemma getDefaultBranch_trace [simp]:
  "fst (getDefaultBranch w) = [Exec [''git'', ''symbolic-ref'', ''refs/remotes/origin/HEAD'']]"
  by (simp add: getDefaultBranch_def Output_def)

lemma getGitHubRepoDetails_trace [simp]:
  "fst (getGitHubRepoDetails w) = [Exec [''git'', ''config'', ''--get'', ''remote.origin.url'']]"
  by (simp add: getGitHubRepoDetails_def Output_def)

lemma getDefaultBranch_result:
  "snd (getDefaultBranch w) =
     (case git w [''symbolic-ref'', ''refs/remotes/origin/HEAD''] of
        Inl err \<Rightarrow> (None, Some (''failed to get default branch: '' @ err))
      | Inr output \<Rightarrow> (Some (last (Split (TrimSpace output) CHR ''/'')), None))"
  using Split_nonempty
  by (simp add: getDefaultBranch_def Output_def Let_def last_conv_nth split: sum.splits)

text \<open>
  C10. In the entry point that discovers the default branch, the branch of
  \<^verbatim>\<open>getDefaultBranch\<close> that reports "could not parse default branch" is never taken:
  splitting any string on \<^verbatim>\<open>/\<close> gives at least one segment, so the function returns an
  error exactly when the git subprocess fails (and then the error of that failure), and
  otherwise the last segment of the trimmed output, which may be empty.
\<close>

theorem getDefaultBranch_parse_error_unreachable:
  "0 < length (Split s CHR ''/'')
   \<and> getDefaultBranch w =
       ([Exec [''git'', ''symbolic-ref'', ''refs/remotes/origin/HEAD'']],
        case git w [''symbolic-ref'', ''refs/remotes/origin/HEAD''] of
          Inl err \<Rightarrow> (None, Some (''failed to get default branch: '' @ err))
        | Inr output \<Rightarrow> (Some (last (Split (TrimSpace output) CHR ''/'')), None))"
proof
  show "0 < length (Split s CHR ''/'')"
    using Split_nonempty [of s "CHR ''/''"] by simp
  show "getDefaultBranch w =
       ([Exec [''git'', ''symbolic-ref'', ''refs/remotes/origin/HEAD'']],
        case git w [''symbolic-ref'', ''refs/remotes/origin/HEAD''] of
          Inl err \<Rightarrow> (None, Some (''failed to get default branch: '' @ err))
        | Inr output \<Rightarrow> (Some (last (Split (TrimSpace output) CHR ''/'')), None))"
    by (rule prod_eqI) (simp_all add: getDefaultBranch_result)
qed

theorem getDefaultBranch_parse_error_unreachable_witness:
  "0 < length (Split ''refs/remotes/origin/'' CHR ''/'')
   \<and> getDefaultBranch sample_world =
       ([Exec [''git'', ''symbolic-ref'', ''refs/remotes/origin/HEAD'']], Some ''main'', None)
   \<and> getDefaultBranch unborn_head_world =
       ([Exec [''git'', ''symbolic-ref'', ''refs/remotes/origin/HEAD'']], Some ''main'', None)
   \<and> getDefaultBranch no_git_world =
       ([Exec [''git'', ''symbolic-ref'', ''refs/remotes/origin/HEAD'']], None,
        Some ''failed to get default branch: exit status 128'')"
proof -
  have a: "git sample_world [''symbolic-ref'', ''refs/remotes/origin/HEAD'']
             = Inr ''refs/remotes/origin/main\<newline>''"
    by (simp add: sample_world_def sample_git_def)
  have b: "last (Split (TrimSpace ''refs/remotes/origin/main\<newline>'') CHR ''/'') = ''main''"
    by code_simp
  have c: "getDefaultBranch unborn_head_world =
       ([Exec [''git'', ''symbolic-ref'', ''refs/remotes/origin/HEAD'']], Some ''main'', None)"
    by code_simp
  have d: "getDefaultBranch no_git_world =
       ([Exec [''git'', ''symbolic-ref'', ''refs/remotes/origin/HEAD'']], None,
        Some ''failed to get default branch: exit status 128'')"
    by code_simp
  show ?thesis
    using getDefaultBranch_parse_error_unreachable
            [of "''refs/remotes/origin/''" sample_world] a b c d
    by simp
qed

text \<open>
  C3. When the current-branch query fails, the run is to report that error and stop.
  In the entry point that discovers the default branch it does not: with an empty base
  flag the second query succeeds, its nil error replaces the first one, the test of
  \<^verbatim>\<open>err\<close> passes, and the next statement reads through the nil \<^verbatim>\<open>sourceBranch\<close>. The
  run ends in a panic after two subprocesses, with no message about the branch.
\<close>

theorem main_nil_sourceBranch_panic:
  "main unborn_head_world =
     ([Exec [''git'', ''rev-parse'', ''--abbrev-ref'', ''HEAD''],
       Exec [''git'', ''symbolic-ref'', ''refs/remotes/origin/HEAD'']],
      Panic)"
  by code_simp

section \<open>The remote-URL parser on the accepted forms\<close>


lemma HasSuffix_iff: "HasSuffix s x \<longleftrightarrow> (\<exists>p. s = p @ x)"
proof
  assume "HasSuffix s x"
  then have "s = take (length s - length x) s @ x"
    by (metis HasSuffix_def append_take_drop_id)
  then show "\<exists>p. s = p @ x" ..
next
  assume "\<exists>p. s = p @ x"
  then show "HasSuffix s x"
    by (auto simp: HasSuffix_def)
qed

lemma TrimSuffix_append: "TrimSuffix (s @ x) x = s"
  by (simp add: TrimSuffix_def HasSuffix_def)

lemma HasSuffix_after_sep:
  assumes "HasSuffix (a @ c # b) x" and "c \<notin> set x"
  shows "HasSuffix b x"
proof -
  from assms(1) obtain p where eq: "a @ c # b = p @ x"
    by (auto simp: HasSuffix_iff)
  then obtain us where "a = p @ us \<and> us @ c # b = x \<or> a @ us = p \<and> c # b = us @ x"
    by (auto simp: append_eq_append_conv2)
  then show ?thesis
  proof
    assume "a = p @ us \<and> us @ c # b = x"
    then have "c \<in> set x" by auto
    with assms(2) show ?thesis by simp
  next
    assume h: "a @ us = p \<and> c # b = us @ x"
    show ?thesis
    proof (cases us)
      case Nil
      with h have "c \<in> set x" by (metis append_Nil list.set_intros(1))
      with assms(2) show ?thesis by simp
    next
      case (Cons u us')
      with h have "b = us' @ x" by simp
      then show ?thesis by (auto simp: HasSuffix_iff)
    qed
  qed
qed

lemma Split_last_two:
  "sep \<notin> set b \<Longrightarrow> sep \<notin> set c \<Longrightarrow> Split (a @ sep # b @ sep # c) sep = Split a sep @ [b, c]"
  by (simp add: Split_at_sep Split_no_sep)

lemma ownerRepo_https:
  assumes "HasPrefix url ''https://''"
    and "TrimSuffix url ''.git'' = a @ CHR ''/'' # b @ CHR ''/'' # c"
    and "CHR ''/'' \<notin> set b" and "CHR ''/'' \<notin> set c"
  shows "ownerRepo url = (b, c)"
proof -
  have "Split (TrimSuffix url ''.git'') CHR ''/'' = Split a CHR ''/'' @ [b, c]"
    using assms(2-4) by (simp add: Split_last_two)
  then show ?thesis
    using assms(1) by (simp add: ownerRepo_def Let_def nth_append)
qed

lemma ownerRepo_ssh:
  assumes "\<not> HasPrefix url ''https://''" and "HasPrefix url ''git@''"
    and "TrimSuffix url ''.git'' = a @ CHR '':'' # b @ CHR ''/'' # c"
    and "CHR '':'' \<notin> set a" and "CHR '':'' \<notin> set b" and "CHR '':'' \<notin> set c"
    and "CHR ''/'' \<notin> set b" and "CHR ''/'' \<notin> set c"
  shows "ownerRepo url = (b, c)"
proof -
  have "Split (TrimSuffix url ''.git'') CHR '':'' = [a, b @ CHR ''/'' # c]"
    using assms(3-6) by (simp add: Split_at_sep Split_no_sep)
  moreover have "Split (b @ CHR ''/'' # c) CHR ''/'' = [b, c]"
    using assms(7,8) by (simp add: Split_at_sep Split_no_sep)
  ultimately show ?thesis
    using assms(1,2) by (simp add: ownerRepo_def Let_def)
qed

lemma ownerRepo_forms:
  assumes "CHR ''/'' \<notin> set host \<union> set OWNER \<union> set REPO"
    and "CHR '':'' \<notin> set host \<union> set OWNER \<union> set REPO"
    and "url = ''https://'' @ host @ ''/'' @ OWNER @ ''/'' @ REPO @ ''.git''
         \<or> url = ''https://'' @ host @ ''/'' @ OWNER @ ''/'' @ REPO \<and> \<not> HasSuffix REPO ''.git''
         \<or> url = ''git@'' @ host @ '':'' @ OWNER @ ''/'' @ REPO @ ''.git''"
  shows "ownerRepo url = (OWNER, REPO)"
  using assms(3)
proof (elim disjE conjE)
  assume u: "url = ''https://'' @ host @ ''/'' @ OWNER @ ''/'' @ REPO @ ''.git''"
  have "TrimSuffix url ''.git'' = (''https://'' @ host) @ CHR ''/'' # OWNER @ CHR ''/'' # REPO"
    using TrimSuffix_append [of "''https://'' @ host @ ''/'' @ OWNER @ ''/'' @ REPO" "''.git''"]
    by (simp add: u)
  moreover have "HasPrefix url ''https://''"
    by (simp add: u HasPrefix_def)
  ultimately show ?thesis
    using assms(1) by (intro ownerRepo_https) auto
next
  assume u: "url = ''https://'' @ host @ ''/'' @ OWNER @ ''/'' @ REPO"
    and n: "\<not> HasSuffix REPO ''.git''"
  have "\<not> HasSuffix url ''.git''"
  proof
    assume "HasSuffix url ''.git''"
    then have "HasSuffix ((''https://'' @ host @ ''/'' @ OWNER) @ CHR ''/'' # REPO) ''.git''"
      by (simp add: u)
    then have "HasSuffix REPO ''.git''"
      by (rule HasSuffix_after_sep) simp
    with n show False ..
  qed
  then have "TrimSuffix url ''.git'' = (''https://'' @ host) @ CHR ''/'' # OWNER @ CHR ''/'' # REPO"
    by (simp add: TrimSuffix_def u)
  moreover have "HasPrefix url ''https://''"
    by (simp add: u HasPrefix_def)
  ultimately show ?thesis
    using assms(1) by (intro ownerRepo_https) auto
next
  assume u: "url = ''git@'' @ host @ '':'' @ OWNER @ ''/'' @ REPO @ ''.git''"
  have "TrimSuffix url ''.git'' = (''git@'' @ host) @ CHR '':'' # OWNER @ CHR ''/'' # REPO"
    using TrimSuffix_append [of "''git@'' @ host @ '':'' @ OWNER @ ''/'' @ REPO" "''.git''"]
    by (simp add: u)
  moreover have "HasPrefix url ''git@''" and "\<not> HasPrefix url ''https://''"
    by (simp_all add: u HasPrefix_def)
  ultimately show ?thesis
    using assms(1,2) by (intro ownerRepo_ssh) auto
qed

lemma getGitHubRepoDetails_result:
  "git w [''config'', ''--get'', ''remote.origin.url''] = Inr output \<Longrightarrow>
   ownerRepo (TrimSpace output) = (owner, repo) \<Longrightarrow> owner \<noteq> [] \<Longrightarrow> repo \<noteq> [] \<Longrightarrow>
   snd (getGitHubRepoDetails w) = (Some owner, Some repo, None)"
  by (simp add: getGitHubRepoDetails_def Output_def)

lemma getGitHubRepoDetails_pr_result:
  "git w [''config'', ''--get'', ''remote.origin.url''] = Inr output \<Longrightarrow>
   ownerRepo (TrimSpace output) = (owner, repo) \<Longrightarrow> owner \<noteq> [] \<Longrightarrow> repo \<noteq> [] \<Longrightarrow>
   snd (getGitHubRepoDetails_pr w) = (owner, repo, None)"
  by (simp add: getGitHubRepoDetails_pr_def Output_def)

text \<open>What does hold of the parser's failures: a success never carries an empty owner
  or repository, and a URL that starts with neither \<^verbatim>\<open>https://\<close> nor \<^verbatim>\<open>git@\<close> is
  refused with an error that names it.\<close>

lemma getGitHubRepoDetails_never_empty:
  "snd (getGitHubRepoDetails w) = (Some owner, Some repo, None) \<Longrightarrow> owner \<noteq> [] \<and> repo \<noteq> []"
  by (auto simp: getGitHubRepoDetails_def Output_def Let_def
      split: sum.splits prod.splits if_splits)

lemma getGitHubRepoDetails_other_scheme:
  "git w [''config'', ''--get'', ''remote.origin.url''] = Inr output \<Longrightarrow>
   \<not> HasPrefix (TrimSpace output) ''https://'' \<Longrightarrow> \<not> HasPrefix (TrimSpace output) ''git@'' \<Longrightarrow>
   snd (getGitHubRepoDetails w) =
     (None, None, Some (''could not parse owner and repo from URL: '' @ TrimSpace output))"
  by (simp add: getGitHubRepoDetails_def Output_def ownerRepo_def)

text \<open>
  C4. Let host, OWNER and REPO be non-empty and free of \<^verbatim>\<open>/\<close> and \<^verbatim>\<open>:\<close>. When the
  remote URL, which the parser receives trimmed of surrounding white space, is
  \<^verbatim>\<open>https://host/OWNER/REPO.git\<close> or \<^verbatim>\<open>git@host:OWNER/REPO.git\<close>, the parser returns
  exactly (OWNER, REPO); so it does when the URL is \<^verbatim>\<open>https://host/OWNER/REPO\<close> with no
  suffix, that is, with REPO not ending in \<^verbatim>\<open>.git\<close>. This holds in both entry points.
\<close>

theorem remote_url_accepted_forms:
  assumes "host \<noteq> []" and "OWNER \<noteq> []" and "REPO \<noteq> []"
    and "CHR ''/'' \<notin> set host \<union> set OWNER \<union> set REPO"
    and "CHR '':'' \<notin> set host \<union> set OWNER \<union> set REPO"
    and "git w [''config'', ''--get'', ''remote.origin.url''] = Inr output"
    and "TrimSpace output = ''https://'' @ host @ ''/'' @ OWNER @ ''/'' @ REPO @ ''.git''
         \<or> TrimSpace output = ''https://'' @ host @ ''/'' @ OWNER @ ''/'' @ REPO
             \<and> \<not> HasSuffix REPO ''.git''
         \<or> TrimSpace output = ''git@'' @ host @ '':'' @ OWNER @ ''/'' @ REPO @ ''.git''"
  shows "snd (getGitHubRepoDetails w) = (Some OWNER, Some REPO, None)
         \<and> snd (getGitHubRepoDetails_pr w) = (OWNER, REPO, None)"
proof -
  have "ownerRepo (TrimSpace output) = (OWNER, REPO)"
    using assms(4,5,7) by (rule ownerRepo_forms)
  with assms(2,3,6) show ?thesis
    by (simp add: getGitHubRepoDetails_result getGitHubRepoDetails_pr_result)
qed

theorem remote_url_accepted_forms_witness:
  "snd (getGitHubRepoDetails sample_world) = (Some ''jmoney'', Some ''create-pr-from-jira'', None)
   \<and> snd (getGitHubRepoDetails_pr sample_world) = (''jmoney'', ''create-pr-from-jira'', None)
   \<and> snd (getGitHubRepoDetails (remote_world ''https://github.com/jmoney/notes\<newline>''))
       = (Some ''jmoney'', Some ''notes'', None)
   \<and> snd (getGitHubRepoDetails (remote_world ''git@github.com:jmoney/notes.git\<newline>''))
       = (Some ''jmoney'', Some ''notes'', None)"
proof -
  have g1: "git sample_world [''config'', ''--get'', ''remote.origin.url'']
              = Inr ''https://github.com/jmoney/create-pr-from-jira.git\<newline>''"
    by (simp add: sample_world_def sample_git_def)
  have t1: "TrimSpace ''https://github.com/jmoney/create-pr-from-jira.git\<newline>''
              = ''https://'' @ ''github.com'' @ ''/'' @ ''jmoney'' @ ''/''
                @ ''create-pr-from-jira'' @ ''.git''"
    by code_simp
  have g2: "git (remote_world ''https://github.com/jmoney/notes\<newline>'')
              [''config'', ''--get'', ''remote.origin.url'']
              = Inr ''https://github.com/jmoney/notes\<newline>''"
    by (simp add: remote_world_def)
  have t2: "TrimSpace ''https://github.com/jmoney/notes\<newline>''
              = ''https://'' @ ''github.com'' @ ''/'' @ ''jmoney'' @ ''/'' @ ''notes''
            \<and> \<not> HasSuffix ''notes'' ''.git''"
    by code_simp
  have g3: "git (remote_world ''git@github.com:jmoney/notes.git\<newline>'')
              [''config'', ''--get'', ''remote.origin.url'']
              = Inr ''git@github.com:jmoney/notes.git\<newline>''"
    by (simp add: remote_world_def)
  have t3: "TrimSpace ''git@github.com:jmoney/notes.git\<newline>''
              = ''git@'' @ ''github.com'' @ '':'' @ ''jmoney'' @ ''/'' @ ''notes'' @ ''.git''"
    by code_simp
  show ?thesis
    using remote_url_accepted_forms [OF _ _ _ _ _ g1 disjI1, OF _ _ _ _ _ t1]
      remote_url_accepted_forms [OF _ _ _ _ _ g2 disjI2, OF _ _ _ _ _ disjI1, OF _ _ _ _ _ t2]
      remote_url_accepted_forms [OF _ _ _ _ _ g3 disjI2, OF _ _ _ _ _ disjI2, OF _ _ _ _ _ t3]
    by simp
qed

text \<open>
  An HTTPS URL with a single path segment after the host is accepted, with the host as
  the owner.
\<close>

lemma ownerRepo_single_segment:
  assumes "CHR ''/'' \<notin> set host" and "CHR ''/'' \<notin> set p" and "\<not> HasSuffix p ''.git''"
  shows "ownerRepo (''https://'' @ host @ ''/'' @ p) = (host, p)"
proof -
  let ?url = "''https://'' @ host @ ''/'' @ p"
  have "\<not> HasSuffix ?url ''.git''"
  proof
    assume "HasSuffix ?url ''.git''"
    then have "HasSuffix ((''https://'' @ host) @ CHR ''/'' # p) ''.git''"
      by simp
    then have "HasSuffix p ''.git''"
      by (rule HasSuffix_after_sep) simp
    with assms(3) show False ..
  qed
  then have "TrimSuffix ?url ''.git'' = ''https:/'' @ CHR ''/'' # host @ CHR ''/'' # p"
    by (simp add: TrimSuffix_def)
  moreover have "HasPrefix ?url ''https://''"
    by (simp add: HasPrefix_def)
  ultimately show ?thesis
    using assms(1,2) by (intro ownerRepo_https) auto
qed

text \<open>
  C2. A remote URL that is not of an accepted form is to be refused with a ParseError.
  \<^verbatim>\<open>https://github.com/owner\<close> has one path segment after the host, yet both entry
  points accept it and return the host as the owner: the guard \<^verbatim>\<open>len(parts) >= 2\<close>
  counts the pieces \<^verbatim>\<open>https:\<close>, the empty piece and the host, so it never fails.
\<close>

theorem remote_url_host_taken_as_owner:
  "getGitHubRepoDetails one_segment_world =
     ([Exec [''git'', ''config'', ''--get'', ''remote.origin.url'']],
      Some ''github.com'', Some ''owner'', None)
   \<and> getGitHubRepoDetails_pr one_segment_world =
     ([Exec [''git'', ''config'', ''--get'', ''remote.origin.url'']],
      ''github.com'', ''owner'', None)"
  by code_simp

section \<open>The steps of a run\<close>


lemma Method_jiraRequest [simp]: "Method (jiraRequest u e t) = ''GET''"
  by (simp add: jiraRequest_def)

lemma Method_githubRequest [simp]: "Method (githubRequest t u j) = ''POST''"
  by (simp add: githubRequest_def)

lemma Payload_githubRequest [simp]: "Payload (githubRequest t u j) = Some j"
  by (simp add: githubRequest_def)

lemma Method_githubRequest_pr [simp]: "Method (githubRequest_pr t u j) = ''POST''"
  by (simp add: githubRequest_pr_def)

lemma Payload_githubRequest_pr [simp]: "Payload (githubRequest_pr t u j) = Some j"
  by (simp add: githubRequest_pr_def)

text \<open>The four results of the functions called by main: a value or an error, never both absent.\<close>

lemma getCurrentBranch_cases:
  obtains (ok) out where "git w [''rev-parse'', ''--abbrev-ref'', ''HEAD''] = Inr out"
      and "getCurrentBranch w = ([Exec [''git'', ''rev-parse'', ''--abbrev-ref'', ''HEAD'']], Some (TrimSpace out), None)"
  | (failed) err where "git w [''rev-parse'', ''--abbrev-ref'', ''HEAD''] = Inl err"
      and "getCurrentBranch w = ([Exec [''git'', ''rev-parse'', ''--abbrev-ref'', ''HEAD'']], None, Some (''failed to get current branch: '' @ err))"
  by (cases "git w [''rev-parse'', ''--abbrev-ref'', ''HEAD'']")
    (simp_all add: getCurrentBranch_def Output_def)

lemma getDefaultBranch_cases:
  obtains (ok) out where "git w [''symbolic-ref'', ''refs/remotes/origin/HEAD''] = Inr out"
      and "getDefaultBranch w = ([Exec [''git'', ''symbolic-ref'', ''refs/remotes/origin/HEAD'']],
             Some (last (Split (TrimSpace out) CHR ''/'')), None)"
  | (failed) err where "git w [''symbolic-ref'', ''refs/remotes/origin/HEAD''] = Inl err"
      and "getDefaultBranch w = ([Exec [''git'', ''symbolic-ref'', ''refs/remotes/origin/HEAD'']],
             None, Some (''failed to get default branch: '' @ err))"
proof (cases "git w [''symbolic-ref'', ''refs/remotes/origin/HEAD'']")
  case (Inl err)
  then have "getDefaultBranch w = ([Exec [''git'', ''symbolic-ref'', ''refs/remotes/origin/HEAD'']],
             None, Some (''failed to get default branch: '' @ err))"
    by (intro prod_eqI) (simp_all add: getDefaultBranch_result)
  with Inl show ?thesis by (rule failed)
next
  case (Inr out)
  then have "getDefaultBranch w = ([Exec [''git'', ''symbolic-ref'', ''refs/remotes/origin/HEAD'']],
             Some (last (Split (TrimSpace out) CHR ''/'')), None)"
    by (intro prod_eqI) (simp_all add: getDefaultBranch_result)
  with Inr show ?thesis by (rule ok)
qed

lemma getGitHubRepoDetails_disj:
  "(\<exists>owner repo. owner \<noteq> [] \<and> repo \<noteq> [] \<and>
      getGitHubRepoDetails w = ([Exec [''git'', ''config'', ''--get'', ''remote.origin.url'']], Some owner, Some repo, None))
   \<or> (\<exists>err. getGitHubRepoDetails w = ([Exec [''git'', ''config'', ''--get'', ''remote.origin.url'']], None, None, Some err))"
  by (simp add: getGitHubRepoDetails_def Output_def Let_def split: sum.splits prod.splits)

lemma getGitHubRepoDetails_cases:
  obtains (ok) owner repo where "owner \<noteq> []" and "repo \<noteq> []"
      and "getGitHubRepoDetails w = ([Exec [''git'', ''config'', ''--get'', ''remote.origin.url'']], Some owner, Some repo, None)"
  | (failed) err where 
      "getGitHubRepoDetails w = ([Exec [''git'', ''config'', ''--get'', ''remote.origin.url'']], None, None, Some err)"
  using getGitHubRepoDetails_disj [of w] by blast

lemma getJiraIssueTitle_disj:
  "(\<exists>resp title. NewRequest_err w ''GET'' (b @ ''/rest/api/3/issue/'' @ k) = None \<and>
      transport w (jiraRequest (b @ ''/rest/api/3/issue/'' @ k) e t) = Inr resp \<and> StatusCode resp = 200 \<and>
      getJiraIssueTitle w b e t k = ([Do (jiraRequest (b @ ''/rest/api/3/issue/'' @ k) e t)], Some title, None))
   \<or> (\<exists>err. getJiraIssueTitle w b e t k = ([], None, Some err))
   \<or> (\<exists>resp. transport w (jiraRequest (b @ ''/rest/api/3/issue/'' @ k) e t) = Inr resp \<and> StatusCode resp \<noteq> 200 \<and>
        getJiraIssueTitle w b e t k = ([Do (jiraRequest (b @ ''/rest/api/3/issue/'' @ k) e t)], None,
             Some (''Failed to fetch JIRA issue. Status: '' @ Status resp)))
   \<or> (\<exists>err. (\<forall>resp. transport w (jiraRequest (b @ ''/rest/api/3/issue/'' @ k) e t) = Inr resp \<longrightarrow> StatusCode resp = 200) \<and>
        getJiraIssueTitle w b e t k = ([Do (jiraRequest (b @ ''/rest/api/3/issue/'' @ k) e t)], None, Some err))"
  by (simp add: getJiraIssueTitle_def Let_def split: option.splits sum.splits)

lemma getJiraIssueTitle_cases:
  obtains (ok) resp title where "NewRequest_err w ''GET'' (b @ ''/rest/api/3/issue/'' @ k) = None"
      and "transport w (jiraRequest (b @ ''/rest/api/3/issue/'' @ k) e t) = Inr resp"
      and "StatusCode resp = 200"
      and "getJiraIssueTitle w b e t k = ([Do (jiraRequest (b @ ''/rest/api/3/issue/'' @ k) e t)], Some title, None)"
  | (unsent) err where "getJiraIssueTitle w b e t k = ([], None, Some err)"
  | (status) resp where "transport w (jiraRequest (b @ ''/rest/api/3/issue/'' @ k) e t) = Inr resp"
      and "StatusCode resp \<noteq> 200"
      and "getJiraIssueTitle w b e t k = ([Do (jiraRequest (b @ ''/rest/api/3/issue/'' @ k) e t)], None,
             Some (''Failed to fetch JIRA issue. Status: '' @ Status resp))"
  | (failed) err where "\<forall>resp. transport w (jiraRequest (b @ ''/rest/api/3/issue/'' @ k) e t) = Inr resp \<longrightarrow> StatusCode resp = 200"
      and "getJiraIssueTitle w b e t k = ([Do (jiraRequest (b @ ''/rest/api/3/issue/'' @ k) e t)], None, Some err)"
  using getJiraIssueTitle_disj [of w b k e t] by blast

lemma main_submit_cases:
  obtains (unsent) err where "NewRequest_err w ''POST'' url = Some err"
      and "main_submit w tok url js = ([], Fatal (''Error creating GitHub request: '' @ err))"
  | (transport) err where "transport w (githubRequest tok url js) = Inl err"
      and "main_submit w tok url js =
             ([Do (githubRequest tok url js)], Fatal (''Error sending GitHub PR request: '' @ err))"
  | (created) resp where "transport w (githubRequest tok url js) = Inr resp"
      and "StatusCode resp = 201"
      and "main_submit w tok url js =
             ([Do (githubRequest tok url js),
               Stdout ''Pull request created successfully!\<newline>'',
               Stdout (Unmarshal_PullRequestResponse w (RespBody resp) @ ''\<newline>'')], Exit0)"
  | (refused) resp where "transport w (githubRequest tok url js) = Inr resp"
      and "StatusCode resp \<noteq> 201"
      and "main_submit w tok url js =
             ([Do (githubRequest tok url js)],
              Fatal (''Failed to create pull request. Status: '' @ Status resp
                     @ '', Response: '' @ RespBody resp))"
proof (cases "NewRequest_err w ''POST'' url")
  case (Some err)
  then show ?thesis
    by (intro unsent [of err]) (simp_all add: main_submit_def)
next
  case None
  show ?thesis
  proof (cases "transport w (githubRequest tok url js)")
    case (Inl err)
    with None show ?thesis
      by (intro transport [of err]) (simp_all add: main_submit_def)
  next
    case (Inr resp)
    with None show ?thesis
      by (cases "StatusCode resp = 201")
        (simp_all add: created [of resp] refused [of resp] main_submit_def)
  qed
qed

lemma main_cases [case_names usage flags config branch panic repo jira submit]:
  obtains
    (usage) "flag_Parse w = ErrHelp" and "main w = ([], Usage)"
  | (flags) err where "flag_Parse w = Failed err" and "main w = ([], FlagError err)"
  | (config) actual where "flag_Parse w = Parsed actual"
      and "env_missing w \<or> jiraIssueKey w = []"
      and "main w = ([], Fatal (if env_missing w
             then ''Error: Required environment variables (JIRA_BASE_URL, JIRA_EMAIL, JIRA_API_TOKEN, GITHUB_TOKEN) are not set.''
             else ''Error: The JIRA issue key must be provided using the -issue flag.''))"
  | (branch) e where "main w = (branch_queries w, Fatal (''Error getting current branch: '' @ e))"
  | (panic) "main w = (branch_queries w, Panic)"
  | (repo) sb e where
      "main w = (branch_queries w
                 @ [Stdout (''Using current branch as source branch: '' @ sb @ ''\<newline>''),
                    Exec [''git'', ''config'', ''--get'', ''remote.origin.url'']],
                 Fatal (''Error fetching GitHub repo details: '' @ e))"
  | (jira) sb owner repo tj e where
      "getJiraIssueTitle w (Getenv w ''JIRA_BASE_URL'') (Getenv w ''JIRA_EMAIL'')
         (Getenv w ''JIRA_API_TOKEN'') (jiraIssueKey w) = (tj, None, Some e)"
      and "main w = (branch_queries w
                 @ [Stdout (''Using current branch as source branch: '' @ sb @ ''\<newline>''),
                    Exec [''git'', ''config'', ''--get'', ''remote.origin.url''],
                    Stdout (''GitHub Owner: '' @ owner @ '', Repo: '' @ repo @ ''\<newline>'')]
                 @ tj,
                 Fatal (''Error fetching JIRA issue: '' @ e))"
  | (submit) sb base owner repo title where
      "snd (getCurrentBranch w) = (Some sb, None)"
      and "if baseBranch w = [] then snd (getDefaultBranch w) = (Some base, None)
           else base = baseBranch w"
      and "snd (getGitHubRepoDetails w) = (Some owner, Some repo, None)"
      and "getJiraIssueTitle w (Getenv w ''JIRA_BASE_URL'') (Getenv w ''JIRA_EMAIL'')
             (Getenv w ''JIRA_API_TOKEN'') (jiraIssueKey w)
           = ([Do (jiraRequest (Getenv w ''JIRA_BASE_URL'' @ ''/rest/api/3/issue/'' @ jiraIssueKey w)
                     (Getenv w ''JIRA_EMAIL'') (Getenv w ''JIRA_API_TOKEN''))],
              Some title, None)"
      and "main w =
             after (branch_queries w
                    @ [Stdout (''Using current branch as source branch: '' @ sb @ ''\<newline>''),
                       Exec [''git'', ''config'', ''--get'', ''remote.origin.url''],
                       Stdout (''GitHub Owner: '' @ owner @ '', Repo: '' @ repo @ ''\<newline>''),
                       Do (jiraRequest (Getenv w ''JIRA_BASE_URL'' @ ''/rest/api/3/issue/'' @ jiraIssueKey w)
                             (Getenv w ''JIRA_EMAIL'') (Getenv w ''JIRA_API_TOKEN'')),
                       Stdout (''Fetched JIRA issue title: '' @ title @ ''\<newline>'')])
               (main_submit w (Getenv w ''GITHUB_TOKEN'')
                  (''https://api.github.com/repos/'' @ owner @ ''/'' @ repo @ ''/pulls'')
                  (Marshal \<lparr>Title = ''['' @ jiraIssueKey w @ ''] '' @ title,
                            Body = Getenv w ''JIRA_BASE_URL'' @ ''/browse/'' @ jiraIssueKey w,
                            Head = sb, Base = base, Draft = True\<rparr>))"
proof (cases "flag_Parse w")
  case ErrHelp
  then show ?thesis
    by (intro usage) (simp_all add: main_def)
next
  case (Failed err)
  then show ?thesis
    by (intro flags [of err]) (simp_all add: main_def)
next
  case (Parsed actual)
  show ?thesis
  proof (cases "env_missing w \<or> jiraIssueKey w = []")
  case True
  with Parsed show ?thesis
    by (intro config [of actual]) (auto simp: main_parsed)
next
  case False
  with Parsed have m: "main w = main_branches w"
    by (auto simp: main_parsed)
  have br: "(\<exists>e. main_branches w = (branch_queries w, Fatal (''Error getting current branch: '' @ e)))
      \<or> main_branches w = (branch_queries w, Panic)
      \<or> (\<exists>sb base. snd (getCurrentBranch w) = (Some sb, None)
            \<and> (if baseBranch w = [] then snd (getDefaultBranch w) = (Some base, None)
                else base = baseBranch w)
            \<and> main_branches w =
                after (branch_queries w
                       @ [Stdout (''Using current branch as source branch: '' @ sb @ ''\<newline>'')])
                  (main_repo w sb (Some base)))"
  proof (cases w rule: getCurrentBranch_cases)
    case cur: (ok out)
    show ?thesis
    proof (cases "baseBranch w = []")
      case True
      then show ?thesis
        by (cases w rule: getDefaultBranch_cases)
          (simp_all add: main_branches_def branch_queries_def cur)
    next
      case False
      then show ?thesis
        by (simp add: main_branches_def branch_queries_def cur)
    qed
  next
    case cur: (failed err)
    show ?thesis
    proof (cases "baseBranch w = []")
      case True
      then show ?thesis
        by (cases w rule: getDefaultBranch_cases)
          (simp_all add: main_branches_def branch_queries_def cur)
    next
      case False
      then show ?thesis
        by (simp add: main_branches_def branch_queries_def cur)
    qed
  qed
  then consider (a) e where "main_branches w = (branch_queries w, Fatal (''Error getting current branch: '' @ e))"
    | (b) "main_branches w = (branch_queries w, Panic)"
    | (c) sb base where "snd (getCurrentBranch w) = (Some sb, None)"
        "if baseBranch w = [] then snd (getDefaultBranch w) = (Some base, None) else base = baseBranch w"
        "main_branches w =
                after (branch_queries w
                       @ [Stdout (''Using current branch as source branch: '' @ sb @ ''\<newline>'')])
                  (main_repo w sb (Some base))"
    by blast
  then show ?thesis
  proof cases
    case a
    with m show ?thesis by (intro branch [of e]) simp
  next
    case b
    with m show ?thesis by (intro panic) simp
  next
    case c
    show ?thesis
    proof (cases w rule: getGitHubRepoDetails_cases)
      case (failed err)
      with m c show ?thesis
        by (intro repo [of sb err]) (simp add: main_repo_def after_def)
    next
      case rp: (ok owner repo)
      show ?thesis
      proof (cases w "Getenv w ''JIRA_BASE_URL''" "jiraIssueKey w" "Getenv w ''JIRA_EMAIL''"
               "Getenv w ''JIRA_API_TOKEN''" rule: getJiraIssueTitle_cases)
        case (ok resp title)
        with m c rp show ?thesis
          by (intro submit [of sb base owner repo title])
            (simp_all add: main_repo_def main_issue_def after_def Let_def)
      next
        case (unsent err)
        with m c rp show ?thesis
          by (intro jira [of "[]" err sb owner repo])
            (simp_all add: main_repo_def main_issue_def after_def Let_def)
      next
        case (status resp)
        with m c rp show ?thesis
          by (intro jira [of _ _ sb owner repo])
            (simp_all add: main_repo_def main_issue_def after_def Let_def)
      next
        case (failed err)
        with m c rp show ?thesis
          by (intro jira [of _ err sb owner repo])
            (simp_all add: main_repo_def main_issue_def after_def Let_def)
      qed
    qed
  qed
qed
qed

lemma getCurrentBranch_pr_cases:
  obtains (ok) out where "git w [''rev-parse'', ''--abbrev-ref'', ''HEAD''] = Inr out"
      and "getCurrentBranch_pr w = ([Exec [''git'', ''rev-parse'', ''--abbrev-ref'', ''HEAD'']], TrimSpace out, None)"
  | (failed) err where "git w [''rev-parse'', ''--abbrev-ref'', ''HEAD''] = Inl err"
      and "getCurrentBranch_pr w = ([Exec [''git'', ''rev-parse'', ''--abbrev-ref'', ''HEAD'']], [], Some (''failed to get current branch: '' @ err))"
  by (cases "git w [''rev-parse'', ''--abbrev-ref'', ''HEAD'']")
    (simp_all add: getCurrentBranch_pr_def Output_def)

lemma getGitHubRepoDetails_pr_disj:
  "(\<exists>owner repo. owner \<noteq> [] \<and> repo \<noteq> [] \<and>
      getGitHubRepoDetails_pr w = ([Exec [''git'', ''config'', ''--get'', ''remote.origin.url'']], owner, repo, None))
   \<or> (\<exists>err. getGitHubRepoDetails_pr w = ([Exec [''git'', ''config'', ''--get'', ''remote.origin.url'']], [], [], Some err))"
  by (simp add: getGitHubRepoDetails_pr_def Output_def Let_def split: sum.splits prod.splits)

lemma getGitHubRepoDetails_pr_cases:
  obtains (ok) owner repo where "owner \<noteq> []" and "repo \<noteq> []"
      and "getGitHubRepoDetails_pr w = ([Exec [''git'', ''config'', ''--get'', ''remote.origin.url'']], owner, repo, None)"
  | (failed) err where 
      "getGitHubRepoDetails_pr w = ([Exec [''git'', ''config'', ''--get'', ''remote.origin.url'']], [], [], Some err)"
  using getGitHubRepoDetails_pr_disj [of w] by blast

lemma main_submit_pr_cases:
  obtains (unsent) err where "NewRequest_err w ''POST'' url = Some err"
      and "main_submit_pr w tok url js = ([], Fatal (''Error creating GitHub request: '' @ err))"
  | (transport) err where "transport w (githubRequest_pr tok url js) = Inl err"
      and "main_submit_pr w tok url js =
             ([Do (githubRequest_pr tok url js)], Fatal (''Error sending GitHub PR request: '' @ err))"
  | (created) resp where "transport w (githubRequest_pr tok url js) = Inr resp"
      and "StatusCode resp = 201"
      and "main_submit_pr w tok url js =
             ([Do (githubRequest_pr tok url js),
               Stdout ''Pull request created successfully!\<newline>''], Exit0)"
  | (refused) resp where "transport w (githubRequest_pr tok url js) = Inr resp"
      and "StatusCode resp \<noteq> 201"
      and "main_submit_pr w tok url js =
             ([Do (githubRequest_pr tok url js)],
              Fatal (''Failed to create pull request. Status: '' @ Status resp
                     @ '', Response: '' @ RespBody resp))"
proof (cases "NewRequest_err w ''POST'' url")
  case (Some err)
  then show ?thesis
    by (intro unsent [of err]) (simp_all add: main_submit_pr_def)
next
  case None
  show ?thesis
  proof (cases "transport w (githubRequest_pr tok url js)")
    case (Inl err)
    with None show ?thesis
      by (intro transport [of err]) (simp_all add: main_submit_pr_def)
  next
    case (Inr resp)
    with None show ?thesis
      by (cases "StatusCode resp = 201")
        (simp_all add: created [of resp] refused [of resp] main_submit_pr_def)
  qed
qed

lemma main_pr_cases [case_names usage flags config branch repo jira submit]:
  obtains
    (usage) "flag_Parse w = ErrHelp" and "main_pr w = ([], Usage)"
  | (flags) err where "flag_Parse w = Failed err" and "main_pr w = ([], FlagError err)"
  | (config) actual where "flag_Parse w = Parsed actual"
      and "env_missing w \<or> jiraIssueKey w = []"
      and "main_pr w = ([], Fatal (if env_missing w
             then ''Error: Required environment variables (JIRA_BASE_URL, JIRA_EMAIL, JIRA_API_TOKEN, GITHUB_TOKEN) are not set.''
             else ''Error: The JIRA issue key must be provided using the -issue flag.''))"
  | (branch) err where "git w [''rev-parse'', ''--abbrev-ref'', ''HEAD''] = Inl err"
      and "main_pr w = ([Exec [''git'', ''rev-parse'', ''--abbrev-ref'', ''HEAD'']],
             Fatal (''Error getting current branch: failed to get current branch: '' @ err))"
  | (repo) sb e where
      "main_pr w = ([Exec [''git'', ''rev-parse'', ''--abbrev-ref'', ''HEAD''],
                    Stdout (''Using current branch as source branch: '' @ sb @ ''\<newline>''),
                    Exec [''git'', ''config'', ''--get'', ''remote.origin.url'']],
                 Fatal (''Error fetching GitHub repo details: '' @ e))"
  | (jira) sb owner repo tj e where
      "getJiraIssueTitle w (Getenv w ''JIRA_BASE_URL'') (Getenv w ''JIRA_EMAIL'')
         (Getenv w ''JIRA_API_TOKEN'') (jiraIssueKey w) = (tj, None, Some e)"
      and "main_pr w = ([Exec [''git'', ''rev-parse'', ''--abbrev-ref'', ''HEAD''],
                    Stdout (''Using current branch as source branch: '' @ sb @ ''\<newline>''),
                    Exec [''git'', ''config'', ''--get'', ''remote.origin.url''],
                    Stdout (''GitHub Owner: '' @ owner @ '', Repo: '' @ repo @ ''\<newline>'')]
                 @ tj,
                 Fatal (''Error fetching JIRA issue: '' @ e))"
  | (submit) sb owner repo title where
      "snd (getCurrentBranch_pr w) = (sb, None)"
      and "snd (getGitHubRepoDetails_pr w) = (owner, repo, None)"
      and "getJiraIssueTitle w (Getenv w ''JIRA_BASE_URL'') (Getenv w ''JIRA_EMAIL'')
             (Getenv w ''JIRA_API_TOKEN'') (jiraIssueKey w)
           = ([Do (jiraRequest (Getenv w ''JIRA_BASE_URL'' @ ''/rest/api/3/issue/'' @ jiraIssueKey w)
                     (Getenv w ''JIRA_EMAIL'') (Getenv w ''JIRA_API_TOKEN''))],
              Some title, None)"
      and "main_pr w =
             after [Exec [''git'', ''rev-parse'', ''--abbrev-ref'', ''HEAD''],
                    Stdout (''Using current branch as source branch: '' @ sb @ ''\<newline>''),
                    Exec [''git'', ''config'', ''--get'', ''remote.origin.url''],
                    Stdout (''GitHub Owner: '' @ owner @ '', Repo: '' @ repo @ ''\<newline>''),
                    Do (jiraRequest (Getenv w ''JIRA_BASE_URL'' @ ''/rest/api/3/issue/'' @ jiraIssueKey w)
                          (Getenv w ''JIRA_EMAIL'') (Getenv w ''JIRA_API_TOKEN'')),
                    Stdout (''Fetched JIRA issue title: '' @ title @ ''\<newline>'')]
               (main_submit_pr w (Getenv w ''GITHUB_TOKEN'')
                  (''https://api.github.com/repos/'' @ owner @ ''/'' @ repo @ ''/pulls'')
                  (Marshal_pr \<lparr>Title = title,
                               Body = Getenv w ''JIRA_BASE_URL'' @ ''/browse/'' @ jiraIssueKey w @ ''.'',
                               Head = sb, Base = baseBranch_pr w\<rparr>))"
proof (cases "flag_Parse w")
  case ErrHelp
  then show ?thesis
    by (intro usage) (simp_all add: main_pr_def)
next
  case (Failed err)
  then show ?thesis
    by (intro flags [of err]) (simp_all add: main_pr_def)
next
  case (Parsed actual)
  note main_pr_def = main_pr_parsed [OF Parsed]
  show ?thesis
  proof (cases "env_missing w \<or> jiraIssueKey w = []")
  case True
  then show ?thesis
    by (intro config [of actual]) (auto simp: main_pr_def Parsed)
next
  case False
  then have m: "\<not> env_missing w" "jiraIssueKey w \<noteq> []"
    by auto
  show ?thesis
  proof (cases w rule: getCurrentBranch_pr_cases)
    case (failed err)
    with m show ?thesis
      by (intro branch [of err]) (simp_all add: main_pr_def)
  next
    case cur: (ok out)
    show ?thesis
    proof (cases w rule: getGitHubRepoDetails_pr_cases)
      case (failed err)
      with m cur show ?thesis
        by (intro repo [of "TrimSpace out" err]) (simp add: main_pr_def main_repo_pr_def after_def)
    next
      case rp: (ok owner repo)
      show ?thesis
      proof (cases w "Getenv w ''JIRA_BASE_URL''" "jiraIssueKey w" "Getenv w ''JIRA_EMAIL''"
               "Getenv w ''JIRA_API_TOKEN''" rule: getJiraIssueTitle_cases)
        case (ok resp title)
        with m cur rp show ?thesis
          by (intro submit [of "TrimSpace out" owner repo title])
            (simp_all add: main_pr_def main_repo_pr_def main_issue_pr_def after_def Let_def)
      next
        case (unsent err)
        with m cur rp show ?thesis
          by (intro jira [of "[]" err "TrimSpace out" owner repo])
            (simp_all add: main_pr_def main_repo_pr_def main_issue_pr_def after_def Let_def)
      next
        case (status resp)
        with m cur rp show ?thesis
          by (intro jira [of _ _ "TrimSpace out" owner repo])
            (simp_all add: main_pr_def main_repo_pr_def main_issue_pr_def after_def Let_def)
      next
        case (failed err)
        with m cur rp show ?thesis
          by (intro jira [of _ err "TrimSpace out" owner repo])
            (simp_all add: main_pr_def main_repo_pr_def main_issue_pr_def after_def Let_def)
      qed
    qed
  qed
qed
qed

section \<open>What a trace can hold\<close>

lemma branch_queries_no_http [simp]:
  "http_requests (branch_queries w) = []" "posts (branch_queries w) = []"
  "printed (branch_queries w) = []"
  by (simp_all add: branch_queries_def)

lemma spawned_branch_queries [simp]:
  "spawned (branch_queries w) =
     [''git'', ''rev-parse'', ''--abbrev-ref'', ''HEAD'']
     # (if baseBranch w = [] then [[''git'', ''symbolic-ref'', ''refs/remotes/origin/HEAD'']]
        else [])"
  by (simp add: branch_queries_def)

lemma getJiraIssueTitle_trace:
  assumes "getJiraIssueTitle w b e t k = (tj, x, y)"
  shows "tj = [] \<or> tj = [Do (jiraRequest (b @ ''/rest/api/3/issue/'' @ k) e t)]"
  using assms by (cases w b k e t rule: getJiraIssueTitle_cases) auto

lemma getJiraIssueTitle_no_post:
  assumes "getJiraIssueTitle w b e t k = (tj, x, y)"
  shows "posts tj = []" and "spawned tj = []"
  using getJiraIssueTitle_trace [OF assms] by auto

lemma main_submit_trace:
  "spawned (fst (main_submit w tok url js)) = []
   \<and> set (http_requests (fst (main_submit w tok url js))) \<subseteq> {githubRequest tok url js}
   \<and> set (posts (fst (main_submit w tok url js))) \<subseteq> {githubRequest tok url js}"
  by (cases rule: main_submit_cases [where w = w and tok = tok and url = url and js = js]) simp_all

lemma main_submit_pr_trace:
  "spawned (fst (main_submit_pr w tok url js)) = []
   \<and> set (http_requests (fst (main_submit_pr w tok url js))) \<subseteq> {githubRequest_pr tok url js}
   \<and> set (posts (fst (main_submit_pr w tok url js))) \<subseteq> {githubRequest_pr tok url js}"
  by (cases rule: main_submit_pr_cases [where w = w and tok = tok and url = url and js = js]) simp_all

text \<open>A POST request of a run is the one request of the last step, and every step before it has succeeded.\<close>

lemma main_posts:
  assumes "r \<in> set (posts (fst (main w)))"
  obtains sb base owner repo title where
    "snd (getCurrentBranch w) = (Some sb, None)"
    and "if baseBranch w = [] then snd (getDefaultBranch w) = (Some base, None)
         else base = baseBranch w"
    and "snd (getGitHubRepoDetails w) = (Some owner, Some repo, None)"
    and "snd (getJiraIssueTitle w (Getenv w ''JIRA_BASE_URL'') (Getenv w ''JIRA_EMAIL'')
               (Getenv w ''JIRA_API_TOKEN'') (jiraIssueKey w)) = (Some title, None)"
    and "r = githubRequest (Getenv w ''GITHUB_TOKEN'')
               (''https://api.github.com/repos/'' @ owner @ ''/'' @ repo @ ''/pulls'')
               (Marshal \<lparr>Title = ''['' @ jiraIssueKey w @ ''] '' @ title,
                         Body = Getenv w ''JIRA_BASE_URL'' @ ''/browse/'' @ jiraIssueKey w,
                         Head = sb, Base = base, Draft = True\<rparr>)"
proof (cases w rule: main_cases)
  case usage
  with assms show ?thesis by simp
next
  case (flags err)
  with assms show ?thesis by simp
next
  case config
  with assms show ?thesis by simp
next
  case (branch e)
  with assms show ?thesis by simp
next
  case panic
  with assms show ?thesis by simp
next
  case (repo sb e)
  with assms show ?thesis by simp
next
  case (jira sb owner repo tj e)
  with assms getJiraIssueTitle_no_post(1) [OF jira(1)] show ?thesis by simp
next
  case (submit sb base owner repo title)
  from assms submit(5) have "r \<in> set (posts (fst (main_submit w (Getenv w ''GITHUB_TOKEN'')
                  (''https://api.github.com/repos/'' @ owner @ ''/'' @ repo @ ''/pulls'')
                  (Marshal \<lparr>Title = ''['' @ jiraIssueKey w @ ''] '' @ title,
                            Body = Getenv w ''JIRA_BASE_URL'' @ ''/browse/'' @ jiraIssueKey w,
                            Head = sb, Base = base, Draft = True\<rparr>))))"
    by simp
  then have "r = githubRequest (Getenv w ''GITHUB_TOKEN'')
               (''https://api.github.com/repos/'' @ owner @ ''/'' @ repo @ ''/pulls'')
               (Marshal \<lparr>Title = ''['' @ jiraIssueKey w @ ''] '' @ title,
                         Body = Getenv w ''JIRA_BASE_URL'' @ ''/browse/'' @ jiraIssueKey w,
                         Head = sb, Base = base, Draft = True\<rparr>)"
    using main_submit_trace by blast
  with submit(1-4) show ?thesis
    by (intro that [of sb base owner repo title]) simp_all
qed

lemma main_pr_posts:
  assumes "r \<in> set (posts (fst (main_pr w)))"
  obtains sb owner repo title where
    "snd (getCurrentBranch_pr w) = (sb, None)"
    and "snd (getGitHubRepoDetails_pr w) = (owner, repo, None)"
    and "snd (getJiraIssueTitle w (Getenv w ''JIRA_BASE_URL'') (Getenv w ''JIRA_EMAIL'')
               (Getenv w ''JIRA_API_TOKEN'') (jiraIssueKey w)) = (Some title, None)"
    and "r = githubRequest_pr (Getenv w ''GITHUB_TOKEN'')
               (''https://api.github.com/repos/'' @ owner @ ''/'' @ repo @ ''/pulls'')
               (Marshal_pr \<lparr>Title = title,
                            Body = Getenv w ''JIRA_BASE_URL'' @ ''/browse/'' @ jiraIssueKey w @ ''.'',
                            Head = sb, Base = baseBranch_pr w\<rparr>)"
proof (cases w rule: main_pr_cases)
  case usage
  with assms show ?thesis by simp
next
  case (flags err)
  with assms show ?thesis by simp
next
  case config
  with assms show ?thesis by simp
next
  case (branch e)
  with assms show ?thesis by simp
next
  case (repo sb e)
  with assms show ?thesis by simp
next
  case (jira sb owner repo tj e)
  with assms getJiraIssueTitle_no_post(1) [OF jira(1)] show ?thesis by simp
next
  case (submit sb owner repo title)
  from assms submit(4) have "r \<in> set (posts (fst (main_submit_pr w (Getenv w ''GITHUB_TOKEN'')
                  (''https://api.github.com/repos/'' @ owner @ ''/'' @ repo @ ''/pulls'')
                  (Marshal_pr \<lparr>Title = title,
                            Body = Getenv w ''JIRA_BASE_URL'' @ ''/browse/'' @ jiraIssueKey w @ ''.'',
                            Head = sb, Base = baseBranch_pr w\<rparr>))))"
    by simp
  then have "r = githubRequest_pr (Getenv w ''GITHUB_TOKEN'')
               (''https://api.github.com/repos/'' @ owner @ ''/'' @ repo @ ''/pulls'')
               (Marshal_pr \<lparr>Title = title,
                            Body = Getenv w ''JIRA_BASE_URL'' @ ''/browse/'' @ jiraIssueKey w @ ''.'',
                            Head = sb, Base = baseBranch_pr w\<rparr>)"
    using main_submit_pr_trace by blast
  with submit(1-3) show ?thesis
    by (intro that [of sb owner repo title]) simp_all
qed

lemma member_Marshal [simp]:
  "member (githubRequest tok url (Marshal pr)) ''title'' = Some (JString (toValidUTF8 (Title pr)))"
  "member (githubRequest tok url (Marshal pr)) ''body'' = Some (JString (toValidUTF8 (Body pr)))"
  "member (githubRequest tok url (Marshal pr)) ''head'' = Some (JString (toValidUTF8 (Head pr)))"
  "member (githubRequest tok url (Marshal pr)) ''base'' = Some (JString (toValidUTF8 (Base pr)))"
  "member (githubRequest tok url (Marshal pr)) ''draft'' = Some (JBool (Draft pr))"
  by (simp_all add: member_def Marshal_def)

lemma member_Marshal_pr [simp]:
  "member (githubRequest_pr tok url (Marshal_pr pr)) ''title'' = Some (JString (toValidUTF8 (Title pr)))"
  "member (githubRequest_pr tok url (Marshal_pr pr)) ''body'' = Some (JString (toValidUTF8 (Body pr)))"
  "member (githubRequest_pr tok url (Marshal_pr pr)) ''head'' = Some (JString (toValidUTF8 (Head pr)))"
  "member (githubRequest_pr tok url (Marshal_pr pr)) ''base'' = Some (JString (toValidUTF8 (Base pr)))"
  "member (githubRequest_pr tok url (Marshal_pr pr)) ''draft'' = None"
  by (simp_all add: member_def Marshal_pr_def)

text \<open>
  C1 (as amended). For every run in which the issue key is \<^verbatim>\<open>PROJ-42\<close> and the fetched
  summary is \<^verbatim>\<open>Fix login bug\<close>: in the entry point that discovers the default branch, a
  pull-request payload sent to GitHub has the title \<^verbatim>\<open>[PROJ-42] Fix login bug\<close> exactly,
  and its body is the JIRA base URL followed by \<^verbatim>\<open>/browse/PROJ-42\<close> as \<^verbatim>\<open>json.Marshal\<close>
  writes it: exactly that text when the base URL is valid UTF-8, and otherwise with
  every invalid byte of the base URL replaced by U+FFFD. In the entry point of
  cmd/cli/pr/main.go the title is the summary, \<^verbatim>\<open>Fix login bug\<close>, exactly.
\<close>

theorem pull_request_title_and_body:
  assumes "jiraIssueKey w = ''PROJ-42''"
    and "snd (getJiraIssueTitle w (Getenv w ''JIRA_BASE_URL'') (Getenv w ''JIRA_EMAIL'')
               (Getenv w ''JIRA_API_TOKEN'') (jiraIssueKey w)) = (Some ''Fix login bug'', None)"
  shows "(r \<in> set (posts (fst (main w))) \<longrightarrow>
            member r ''title'' = Some (JString ''[PROJ-42] Fix login bug'')
            \<and> member r ''body''
                = Some (JString (toValidUTF8 (Getenv w ''JIRA_BASE_URL'' @ ''/browse/PROJ-42'')))
            \<and> (ValidString (Getenv w ''JIRA_BASE_URL'') \<longrightarrow>
                 member r ''body''
                   = Some (JString (Getenv w ''JIRA_BASE_URL'' @ ''/browse/PROJ-42''))))
         \<and> (r \<in> set (posts (fst (main_pr w))) \<longrightarrow>
              member r ''title'' = Some (JString ''Fix login bug''))"
proof (intro conjI impI)
  have t: "toValidUTF8 ''[PROJ-42] Fix login bug'' = ''[PROJ-42] Fix login bug''"
    "toValidUTF8 ''Fix login bug'' = ''Fix login bug''"
    "toValidUTF8 ''/browse/PROJ-42'' = ''/browse/PROJ-42''"
    by code_simp+
  {
    assume "r \<in> set (posts (fst (main w)))"
    then have "member r ''title'' = Some (JString (toValidUTF8 ''[PROJ-42] Fix login bug''))
        \<and> member r ''body''
            = Some (JString (toValidUTF8 (Getenv w ''JIRA_BASE_URL'' @ ''/browse/PROJ-42'')))"
      using assms by (cases rule: main_posts) simp
  }
  note m = this
  show "member r ''title'' = Some (JString ''[PROJ-42] Fix login bug'')"
    if "r \<in> set (posts (fst (main w)))"
    using m [OF that] t(1) by simp
  show "member r ''body''
          = Some (JString (toValidUTF8 (Getenv w ''JIRA_BASE_URL'' @ ''/browse/PROJ-42'')))"
    if "r \<in> set (posts (fst (main w)))"
    using m [OF that] by simp
  show "member r ''body'' = Some (JString (Getenv w ''JIRA_BASE_URL'' @ ''/browse/PROJ-42''))"
    if "r \<in> set (posts (fst (main w)))" and "ValidString (Getenv w ''JIRA_BASE_URL'')"
    using m [OF that(1)] toValidUTF8_append [OF that(2), of "''/browse/PROJ-42''"] t(3)
    by simp
  show "member r ''title'' = Some (JString ''Fix login bug'')"
    if "r \<in> set (posts (fst (main_pr w)))"
    using that assms t(2) by (cases rule: main_pr_posts) simp
qed

theorem pull_request_title_and_body_witness:
  "posts (fst (main sample_world)) \<noteq> []
   \<and> member (hd (posts (fst (main sample_world)))) ''title''
       = Some (JString ''[PROJ-42] Fix login bug'')
   \<and> member (hd (posts (fst (main sample_world)))) ''body''
       = Some (JString ''https://jira.example.com/browse/PROJ-42'')
   \<and> posts (fst (main_pr sample_world)) \<noteq> []
   \<and> member (hd (posts (fst (main_pr sample_world)))) ''title''
       = Some (JString ''Fix login bug'')"
proof -
  have k: "jiraIssueKey sample_world = ''PROJ-42''"
    by code_simp
  have s: "snd (getJiraIssueTitle sample_world (Getenv sample_world ''JIRA_BASE_URL'')
                  (Getenv sample_world ''JIRA_EMAIL'') (Getenv sample_world ''JIRA_API_TOKEN'')
                  (jiraIssueKey sample_world)) = (Some ''Fix login bug'', None)"
    by code_simp
  have n: "posts (fst (main sample_world)) \<noteq> []" "posts (fst (main_pr sample_world)) \<noteq> []"
    by code_simp+
  then have p: "hd (posts (fst (main sample_world))) \<in> set (posts (fst (main sample_world)))"
    "hd (posts (fst (main_pr sample_world))) \<in> set (posts (fst (main_pr sample_world)))"
    by simp_all
  have b: "Getenv sample_world ''JIRA_BASE_URL'' = ''https://jira.example.com''"
    "ValidString ''https://jira.example.com''"
    "toValidUTF8 ''https://jira.example.com/browse/PROJ-42''
       = ''https://jira.example.com/browse/PROJ-42''"
    by code_simp+
  show ?thesis
    using pull_request_title_and_body [OF k s, of "hd (posts (fst (main sample_world)))"]
      pull_request_title_and_body [OF k s, of "hd (posts (fst (main_pr sample_world)))"]
      n p b
    by simp
qed

text \<open>
  C1 as stated, for every run, fails in the entry point of cmd/cli/pr/main.go: there
  the title is the summary alone and the body ends in a full stop.
\<close>

theorem pull_request_title_and_body_counterexample:
  "jiraIssueKey sample_world = ''PROJ-42''
   \<and> snd (getJiraIssueTitle sample_world (Getenv sample_world ''JIRA_BASE_URL'')
            (Getenv sample_world ''JIRA_EMAIL'') (Getenv sample_world ''JIRA_API_TOKEN'')
            (jiraIssueKey sample_world)) = (Some ''Fix login bug'', None)
   \<and> Getenv sample_world ''JIRA_BASE_URL'' = ''https://jira.example.com''
   \<and> map title_body (posts (fst (main_pr sample_world)))
       = [(Some (JString ''Fix login bug''),
           Some (JString ''https://jira.example.com/browse/PROJ-42.''))]"
  by code_simp

text \<open>
  C5 (as amended). In the entry point that discovers the default branch, for every run in
  which the base flag is empty, the base branch of a pull-request payload sent to GitHub
  is the last segment, split on \<^verbatim>\<open>/\<close>, of the trimmed output of
  \<^verbatim>\<open>git symbolic-ref refs/remotes/origin/HEAD\<close>, as \<^verbatim>\<open>json.Marshal\<close> writes it: exactly
  the segment when it is valid UTF-8, and otherwise with every invalid byte replaced by
  U+FFFD. In the entry point of cmd/cli/pr/main.go it is, written by \<^verbatim>\<open>json.Marshal\<close>
  the same way, the value of the base flag, which is \<^verbatim>\<open>main\<close> when the flag is not
  given.
\<close>

theorem base_is_last_segment_of_symbolic_ref:
  "(baseBranch w = [] \<and> r \<in> set (posts (fst (main w))) \<longrightarrow>
      (\<exists>out. git w [''symbolic-ref'', ''refs/remotes/origin/HEAD''] = Inr out
             \<and> member r ''base''
                 = Some (JString (toValidUTF8 (last (Split (TrimSpace out) CHR ''/''))))
             \<and> (ValidString (last (Split (TrimSpace out) CHR ''/'')) \<longrightarrow>
                  member r ''base'' = Some (JString (last (Split (TrimSpace out) CHR ''/''))))))
   \<and> (r \<in> set (posts (fst (main_pr w))) \<longrightarrow>
        member r ''base'' = Some (JString (toValidUTF8 (baseBranch_pr w)))
        \<and> (ValidString (baseBranch_pr w) \<longrightarrow>
             member r ''base'' = Some (JString (baseBranch_pr w))))
   \<and> (flag_Parse w = Parsed actual \<and> map_of actual ''base'' = None \<longrightarrow>
        baseBranch_pr w = ''main'')"
proof (intro conjI impI)
  assume "baseBranch w = [] \<and> r \<in> set (posts (fst (main w)))"
  then have e: "baseBranch w = []" and r: "r \<in> set (posts (fst (main w)))"
    by simp_all
  from r show "\<exists>out. git w [''symbolic-ref'', ''refs/remotes/origin/HEAD''] = Inr out
             \<and> member r ''base''
                 = Some (JString (toValidUTF8 (last (Split (TrimSpace out) CHR ''/''))))
             \<and> (ValidString (last (Split (TrimSpace out) CHR ''/'')) \<longrightarrow>
                  member r ''base'' = Some (JString (last (Split (TrimSpace out) CHR ''/''))))"
  proof (cases rule: main_posts)
    case (1 sb base owner repo title)
    with e have d: "snd (getDefaultBranch w) = (Some base, None)"
      by simp
    show ?thesis
    proof (cases "git w [''symbolic-ref'', ''refs/remotes/origin/HEAD'']")
      case (Inl err)
      with d show ?thesis by (simp add: getDefaultBranch_result)
    next
      case (Inr out)
      with d have "base = last (Split (TrimSpace out) CHR ''/'')"
        by (simp add: getDefaultBranch_result)
      with Inr 1(5) show ?thesis by (simp add: toValidUTF8_valid)
    qed
  qed
next
  assume "r \<in> set (posts (fst (main_pr w)))"
  then show "member r ''base'' = Some (JString (toValidUTF8 (baseBranch_pr w)))"
    by (cases rule: main_pr_posts) simp
next
  assume "r \<in> set (posts (fst (main_pr w)))" and "ValidString (baseBranch_pr w)"
  then show "member r ''base'' = Some (JString (baseBranch_pr w))"
    by (cases rule: main_pr_posts) (simp add: toValidUTF8_valid)
next
  assume "flag_Parse w = Parsed actual \<and> map_of actual ''base'' = None"
  then show "baseBranch_pr w = ''main''"
    by (simp add: baseBranch_pr_def flagValue_parsed)
qed

theorem base_is_last_segment_of_symbolic_ref_witness:
  "baseBranch sample_world = []
   \<and> git sample_world [''symbolic-ref'', ''refs/remotes/origin/HEAD'']
       = Inr ''refs/remotes/origin/main\<newline>''
   \<and> posts (fst (main sample_world)) \<noteq> []
   \<and> member (hd (posts (fst (main sample_world)))) ''base'' = Some (JString ''main'')
   \<and> posts (fst (main_pr develop_world)) \<noteq> []
   \<and> member (hd (posts (fst (main_pr develop_world)))) ''base'' = Some (JString ''develop'')
   \<and> flag_Parse sample_world = Parsed [(''issue'', ''PROJ-42'')]
   \<and> posts (fst (main_pr sample_world)) \<noteq> []
   \<and> member (hd (posts (fst (main_pr sample_world)))) ''base'' = Some (JString ''main'')"
proof -
  have e: "baseBranch sample_world = []"
    by code_simp
  have g: "git sample_world [''symbolic-ref'', ''refs/remotes/origin/HEAD'']
             = Inr ''refs/remotes/origin/main\<newline>''"
    by code_simp
  have l: "last (Split (TrimSpace ''refs/remotes/origin/main\<newline>'') CHR ''/'') = ''main''"
    "ValidString ''main''" "ValidString ''develop''"
    "toValidUTF8 ''main'' = ''main''" "toValidUTF8 ''develop'' = ''develop''"
    by code_simp+
  have b: "baseBranch_pr sample_world = ''main''"
    by code_simp
  have d: "baseBranch_pr develop_world = ''develop''"
    by code_simp
  have f: "flag_Parse sample_world = Parsed [(''issue'', ''PROJ-42'')]"
    "map_of [(''issue'', ''PROJ-42'')] ''base'' = None"
    by code_simp+
  have n: "posts (fst (main sample_world)) \<noteq> []" "posts (fst (main_pr develop_world)) \<noteq> []"
    "posts (fst (main_pr sample_world)) \<noteq> []"
    by code_simp+
  then have p: "hd (posts (fst (main sample_world))) \<in> set (posts (fst (main sample_world)))"
    "hd (posts (fst (main_pr develop_world))) \<in> set (posts (fst (main_pr develop_world)))"
    "hd (posts (fst (main_pr sample_world))) \<in> set (posts (fst (main_pr sample_world)))"
    by simp_all
  show ?thesis
    using base_is_last_segment_of_symbolic_ref
            [of sample_world "hd (posts (fst (main sample_world)))" "[(''issue'', ''PROJ-42'')]"]
      base_is_last_segment_of_symbolic_ref
            [of develop_world "hd (posts (fst (main_pr develop_world)))"]
      base_is_last_segment_of_symbolic_ref
            [of sample_world "hd (posts (fst (main_pr sample_world)))" "[(''issue'', ''PROJ-42'')]"]
      e g l d f b n p
    by auto
qed

text \<open>
  C5 as stated, for every run, fails in the entry point of cmd/cli/pr/main.go, which
  has no default-branch query: with \<^verbatim>\<open>-base ""\<close> the payload's base is the empty
  string, whatever the remote HEAD is.
\<close>

theorem base_is_last_segment_of_symbolic_ref_counterexample:
  "baseBranch_pr empty_base_world = []
   \<and> git empty_base_world [''symbolic-ref'', ''refs/remotes/origin/HEAD'']
       = Inr ''refs/remotes/origin/main\<newline>''
   \<and> last (Split (TrimSpace ''refs/remotes/origin/main\<newline>'') CHR ''/'') = ''main''
   \<and> posts (fst (main_pr empty_base_world)) \<noteq> []
   \<and> member (hd (posts (fst (main_pr empty_base_world)))) ''base'' = Some (JString [])"
  by code_simp

text \<open>The subprocesses a run can start.\<close>

lemma main_spawned:
  "set (spawned (fst (main w))) \<subseteq>
     {[''git'', ''rev-parse'', ''--abbrev-ref'', ''HEAD''],
      [''git'', ''config'', ''--get'', ''remote.origin.url'']}
     \<union> (if baseBranch w = [] then {[''git'', ''symbolic-ref'', ''refs/remotes/origin/HEAD'']}
         else {})"
proof (cases w rule: main_cases)
  case (jira sb owner repo tj e)
  with getJiraIssueTitle_no_post(2) [OF jira(1)] show ?thesis by simp
next
  case (submit sb base owner repo title)
  then show ?thesis by (simp add: main_submit_trace)
qed simp_all

lemma main_pr_spawned:
  "set (spawned (fst (main_pr w))) \<subseteq>
     {[''git'', ''rev-parse'', ''--abbrev-ref'', ''HEAD''],
      [''git'', ''config'', ''--get'', ''remote.origin.url'']}"
proof (cases w rule: main_pr_cases)
  case (jira sb owner repo tj e)
  with getJiraIssueTitle_no_post(2) [OF jira(1)] show ?thesis by simp
next
  case (submit sb owner repo title)
  then show ?thesis by (simp add: main_submit_pr_trace)
qed simp_all

text \<open>
  C8 (as amended). For every run in which the base flag is given and not empty, in
  either entry point, \<^verbatim>\<open>git symbolic-ref refs/remotes/origin/HEAD\<close> is never spawned, and
  a pull-request payload sent to GitHub carries the given value as its base as
  \<^verbatim>\<open>json.Marshal\<close> writes it: unchanged when the value is valid UTF-8, and otherwise with
  every invalid byte replaced by U+FFFD.
\<close>

theorem base_flag_skips_discovery:
  assumes "flag_Parse w = Parsed actual" and "map_of actual ''base'' = Some b" and "b \<noteq> []"
  shows "[''git'', ''symbolic-ref'', ''refs/remotes/origin/HEAD''] \<notin> set (spawned (fst (main w)))
         \<and> (\<forall>r\<in>set (posts (fst (main w))). member r ''base'' = Some (JString (toValidUTF8 b)))
         \<and> [''git'', ''symbolic-ref'', ''refs/remotes/origin/HEAD'']
             \<notin> set (spawned (fst (main_pr w)))
         \<and> (\<forall>r\<in>set (posts (fst (main_pr w))). member r ''base'' = Some (JString (toValidUTF8 b)))
         \<and> (ValidString b \<longrightarrow>
              (\<forall>r\<in>set (posts (fst (main w))). member r ''base'' = Some (JString b))
              \<and> (\<forall>r\<in>set (posts (fst (main_pr w))). member r ''base'' = Some (JString b)))"
proof -
  from assms have b: "baseBranch w = b" "baseBranch w \<noteq> []" "baseBranch_pr w = b"
    by (simp_all add: baseBranch_def baseBranch_pr_def flagValue_parsed)
  have "[''git'', ''symbolic-ref'', ''refs/remotes/origin/HEAD''] \<notin> set (spawned (fst (main w)))"
    using main_spawned [of w] b(2) by auto
  moreover have "[''git'', ''symbolic-ref'', ''refs/remotes/origin/HEAD'']
                   \<notin> set (spawned (fst (main_pr w)))"
    using main_pr_spawned [of w] by auto
  moreover have m: "member r ''base'' = Some (JString (toValidUTF8 b))"
    if "r \<in> set (posts (fst (main w)))" for r
    using that
  proof (cases rule: main_posts)
    case (1 sb base owner repo title)
    with b show ?thesis by simp
  qed
  moreover have p: "member r ''base'' = Some (JString (toValidUTF8 b))"
    if "r \<in> set (posts (fst (main_pr w)))" for r
    using that
  proof (cases rule: main_pr_posts)
    case (1 sb owner repo title)
    with b show ?thesis by simp
  qed
  moreover have "member r ''base'' = Some (JString b)"
    if "ValidString b" and "r \<in> set (posts (fst (main w)))" for r
    using m [OF that(2)] toValidUTF8_valid [OF that(1)] by simp
  moreover have "member r ''base'' = Some (JString b)"
    if "ValidString b" and "r \<in> set (posts (fst (main_pr w)))" for r
    using p [OF that(2)] toValidUTF8_valid [OF that(1)] by simp
  ultimately show ?thesis by blast
qed

theorem base_flag_skips_discovery_witness:
  "flag_Parse develop_world = Parsed [(''base'', ''develop''), (''issue'', ''PROJ-42'')]
   \<and> spawned (fst (main develop_world)) =
       [[''git'', ''rev-parse'', ''--abbrev-ref'', ''HEAD''],
        [''git'', ''config'', ''--get'', ''remote.origin.url'']]
   \<and> posts (fst (main develop_world)) \<noteq> []
   \<and> member (hd (posts (fst (main develop_world)))) ''base'' = Some (JString ''develop'')
   \<and> posts (fst (main_pr develop_world)) \<noteq> []
   \<and> member (hd (posts (fst (main_pr develop_world)))) ''base'' = Some (JString ''develop'')"
proof -
  have a: "flag_Parse develop_world = Parsed [(''base'', ''develop''), (''issue'', ''PROJ-42'')]"
    by code_simp
  have c: "map_of [(''base'', ''develop''), (''issue'', ''PROJ-42'')] ''base'' = Some ''develop''"
    by simp
  have v: "ValidString ''develop''" "toValidUTF8 ''develop'' = ''develop''"
    by code_simp+
  have s: "spawned (fst (main develop_world)) =
       [[''git'', ''rev-parse'', ''--abbrev-ref'', ''HEAD''],
        [''git'', ''config'', ''--get'', ''remote.origin.url'']]"
    by code_simp
  have n: "posts (fst (main develop_world)) \<noteq> []" "posts (fst (main_pr develop_world)) \<noteq> []"
    by code_simp+
  then have p: "hd (posts (fst (main develop_world))) \<in> set (posts (fst (main develop_world)))"
    "hd (posts (fst (main_pr develop_world))) \<in> set (posts (fst (main_pr develop_world)))"
    by simp_all
  show ?thesis
    using base_flag_skips_discovery [OF a c] a v s n p by simp
qed

text \<open>
  C8 as stated fails on "verbatim" for a value that is not valid UTF-8: with
  \<^verbatim>\<open>-base\<close> given the four bytes 64 65 76 FF, the base of the payload is \<^verbatim>\<open>dev\<close>
  followed by U+FFFD (the bytes EF BF BD), in both entry points.
\<close>

theorem base_flag_skips_discovery_counterexample:
  "baseBranch invalid_base_world = [CHR 0x64, CHR 0x65, CHR 0x76, CHR 0xFF]
   \<and> posts (fst (main invalid_base_world)) \<noteq> []
   \<and> member (hd (posts (fst (main invalid_base_world)))) ''base''
       = Some (JString [CHR 0x64, CHR 0x65, CHR 0x76, CHR 0xEF, CHR 0xBF, CHR 0xBD])
   \<and> posts (fst (main_pr invalid_base_world)) \<noteq> []
   \<and> member (hd (posts (fst (main_pr invalid_base_world)))) ''base''
       = Some (JString [CHR 0x64, CHR 0x65, CHR 0x76, CHR 0xEF, CHR 0xBF, CHR 0xBD])"
  by code_simp

lemma getJiraIssueTitle_non_200:
  assumes "transport w (jiraRequest (b @ ''/rest/api/3/issue/'' @ k) e t) = Inr resp"
    and "StatusCode resp \<noteq> 200"
  shows "(\<exists>err. getJiraIssueTitle w b e t k = ([], None, Some err))
         \<or> getJiraIssueTitle w b e t k =
              ([Do (jiraRequest (b @ ''/rest/api/3/issue/'' @ k) e t)], None,
               Some (''Failed to fetch JIRA issue. Status: '' @ Status resp))"
  using assms by (simp add: getJiraIssueTitle_def Let_def split: option.splits)

text \<open>
  Where the failure of the current-branch query is reported as it should be: in the
  entry point that discovers the default branch when the base flag is not empty, and
  always in the entry point of cmd/cli/pr/main.go.
\<close>

lemma main_current_branch_failure_with_base:
  assumes "\<not> env_missing w" and "jiraIssueKey w \<noteq> []" and "baseBranch w \<noteq> []"
    and "git w [''rev-parse'', ''--abbrev-ref'', ''HEAD''] = Inl err"
  shows "main w = ([Exec [''git'', ''rev-parse'', ''--abbrev-ref'', ''HEAD'']],
                   Fatal (''Error getting current branch: failed to get current branch: '' @ err))"
proof -
  from assms(2) obtain actual where "flag_Parse w = Parsed actual"
    by (rule jiraIssueKey_parsed)
  with assms show ?thesis
    by (simp add: main_parsed main_branches_def getCurrentBranch_def Output_def)
qed

lemma main_pr_current_branch_failure:
  assumes "\<not> env_missing w" and "jiraIssueKey w \<noteq> []"
    and "git w [''rev-parse'', ''--abbrev-ref'', ''HEAD''] = Inl err"
  shows "main_pr w = ([Exec [''git'', ''rev-parse'', ''--abbrev-ref'', ''HEAD'']],
                      Fatal (''Error getting current branch: failed to get current branch: '' @ err))"
proof -
  from assms(2) obtain actual where "flag_Parse w = Parsed actual"
    by (rule jiraIssueKey_parsed)
  with assms show ?thesis
    by (simp add: main_pr_parsed getCurrentBranch_pr_def Output_def)
qed

text \<open>
  Where it is not: in the entry point that discovers the default branch with an empty
  base flag. When the default-branch query succeeds the run panics, whatever the world
  is otherwise; when it fails too, the run reports the second failure under the words
  of the first.
\<close>

lemma main_hidden_current_branch_failure:
  assumes "\<not> env_missing w" and "jiraIssueKey w \<noteq> []" and "baseBranch w = []"
    and "git w [''rev-parse'', ''--abbrev-ref'', ''HEAD''] = Inl err"
    and "git w [''symbolic-ref'', ''refs/remotes/origin/HEAD''] = Inr out"
  shows "main w = ([Exec [''git'', ''rev-parse'', ''--abbrev-ref'', ''HEAD''],
                    Exec [''git'', ''symbolic-ref'', ''refs/remotes/origin/HEAD'']], Panic)"
proof -
  from assms(2) obtain actual where p: "flag_Parse w = Parsed actual"
    by (rule jiraIssueKey_parsed)
  have "getDefaultBranch w =
          ([Exec [''git'', ''symbolic-ref'', ''refs/remotes/origin/HEAD'']],
           Some (last (Split (TrimSpace out) CHR ''/'')), None)"
    using assms(5) by (intro prod_eqI) (simp_all add: getDefaultBranch_result)
  with assms(1-4) p show ?thesis
    by (simp add: main_parsed main_branches_def getCurrentBranch_def Output_def)
qed

lemma main_both_branch_queries_fail:
  assumes "\<not> env_missing w" and "jiraIssueKey w \<noteq> []" and "baseBranch w = []"
    and "git w [''rev-parse'', ''--abbrev-ref'', ''HEAD''] = Inl err"
    and "git w [''symbolic-ref'', ''refs/remotes/origin/HEAD''] = Inl err'"
  shows "main w = ([Exec [''git'', ''rev-parse'', ''--abbrev-ref'', ''HEAD''],
                    Exec [''git'', ''symbolic-ref'', ''refs/remotes/origin/HEAD'']],
                   Fatal (''Error getting current branch: failed to get default branch: '' @ err'))"
proof -
  from assms(2) obtain actual where p: "flag_Parse w = Parsed actual"
    by (rule jiraIssueKey_parsed)
  have "getDefaultBranch w =
          ([Exec [''git'', ''symbolic-ref'', ''refs/remotes/origin/HEAD'']],
           None, Some (''failed to get default branch: '' @ err'))"
    using assms(5) by (intro prod_eqI) (simp_all add: getDefaultBranch_result)
  with assms(1-4) p show ?thesis
    by (simp add: main_parsed main_branches_def getCurrentBranch_def Output_def)
qed

text \<open>
  C7. For every run, of either entry point, that sends a GET request answered with a
  status other than 200: the issue lookup fails with an error that carries the status
  text of the response, the run ends in \<^verbatim>\<open>log.Fatalf\<close> with that error, and its trace
  holds no POST request.
\<close>

theorem jira_failure_stops_the_run:
  assumes "Method r = ''GET''" and "transport w r = Inr resp" and "StatusCode resp \<noteq> 200"
  shows "(r \<in> set (http_requests (fst (main w))) \<longrightarrow>
            snd (getJiraIssueTitle w (Getenv w ''JIRA_BASE_URL'') (Getenv w ''JIRA_EMAIL'')
                   (Getenv w ''JIRA_API_TOKEN'') (jiraIssueKey w))
              = (None, Some (''Failed to fetch JIRA issue. Status: '' @ Status resp))
            \<and> snd (main w) = Fatal (''Error fetching JIRA issue: Failed to fetch JIRA issue. Status: ''
                                   @ Status resp)
            \<and> posts (fst (main w)) = [])
         \<and> (r \<in> set (http_requests (fst (main_pr w))) \<longrightarrow>
            snd (getJiraIssueTitle w (Getenv w ''JIRA_BASE_URL'') (Getenv w ''JIRA_EMAIL'')
                   (Getenv w ''JIRA_API_TOKEN'') (jiraIssueKey w))
              = (None, Some (''Failed to fetch JIRA issue. Status: '' @ Status resp))
            \<and> snd (main_pr w) = Fatal (''Error fetching JIRA issue: Failed to fetch JIRA issue. Status: ''
                                      @ Status resp)
            \<and> posts (fst (main_pr w)) = [])"
proof (intro conjI impI)
  let ?jr = "jiraRequest (Getenv w ''JIRA_BASE_URL'' @ ''/rest/api/3/issue/'' @ jiraIssueKey w)
               (Getenv w ''JIRA_EMAIL'') (Getenv w ''JIRA_API_TOKEN'')"
  let ?msg = "''Failed to fetch JIRA issue. Status: '' @ Status resp"
  have sent: "getJiraIssueTitle w (Getenv w ''JIRA_BASE_URL'') (Getenv w ''JIRA_EMAIL'')
                (Getenv w ''JIRA_API_TOKEN'') (jiraIssueKey w) = ([Do ?jr], None, Some ?msg)"
    if "r = ?jr"
      and "fst (getJiraIssueTitle w (Getenv w ''JIRA_BASE_URL'') (Getenv w ''JIRA_EMAIL'')
                (Getenv w ''JIRA_API_TOKEN'') (jiraIssueKey w)) \<noteq> []"
    using getJiraIssueTitle_non_200 [of w "Getenv w ''JIRA_BASE_URL''" "jiraIssueKey w"
        "Getenv w ''JIRA_EMAIL''" "Getenv w ''JIRA_API_TOKEN''" resp] that assms(2,3)
    by auto
  {
    assume r: "r \<in> set (http_requests (fst (main w)))"
    have "snd (getJiraIssueTitle w (Getenv w ''JIRA_BASE_URL'') (Getenv w ''JIRA_EMAIL'')
                   (Getenv w ''JIRA_API_TOKEN'') (jiraIssueKey w)) = (None, Some ?msg)
          \<and> snd (main w) = Fatal (''Error fetching JIRA issue: '' @ ?msg)
          \<and> posts (fst (main w)) = []"
    proof (cases w rule: main_cases)
      case usage
      with r show ?thesis by simp
    next
      case (flags err)
      with r show ?thesis by simp
    next
      case config
      with r show ?thesis by simp
    next
      case (branch e)
      with r show ?thesis by simp
    next
      case panic
      with r show ?thesis by simp
    next
      case (repo sb e)
      with r show ?thesis by simp
    next
      case (jira sb owner repo tj e)
      with r have "r \<in> set (http_requests tj)" by simp
      with getJiraIssueTitle_trace [OF jira(1)] have "r = ?jr" "tj \<noteq> []" by auto
      with sent jira(1) have "tj = [Do ?jr]" "e = ?msg" by auto
      with jira show ?thesis by simp
    next
      case (submit sb base owner repo title)
      with r assms(1) main_submit_trace have "r = ?jr" by fastforce
      with sent submit(4) show ?thesis by simp
    qed
  }
  then show "r \<in> set (http_requests (fst (main w))) \<Longrightarrow>
      snd (getJiraIssueTitle w (Getenv w ''JIRA_BASE_URL'') (Getenv w ''JIRA_EMAIL'')
                   (Getenv w ''JIRA_API_TOKEN'') (jiraIssueKey w)) = (None, Some ?msg)"
    and "r \<in> set (http_requests (fst (main w))) \<Longrightarrow>
      snd (main w) = Fatal (''Error fetching JIRA issue: Failed to fetch JIRA issue. Status: '' @ Status resp)"
    and "r \<in> set (http_requests (fst (main w))) \<Longrightarrow> posts (fst (main w)) = []"
    by simp_all
  {
    assume r: "r \<in> set (http_requests (fst (main_pr w)))"
    have "snd (getJiraIssueTitle w (Getenv w ''JIRA_BASE_URL'') (Getenv w ''JIRA_EMAIL'')
                   (Getenv w ''JIRA_API_TOKEN'') (jiraIssueKey w)) = (None, Some ?msg)
          \<and> snd (main_pr w) = Fatal (''Error fetching JIRA issue: '' @ ?msg)
          \<and> posts (fst (main_pr w)) = []"
    proof (cases w rule: main_pr_cases)
      case usage
      with r show ?thesis by simp
    next
      case (flags err)
      with r show ?thesis by simp
    next
      case config
      with r show ?thesis by simp
    next
      case (branch e)
      with r show ?thesis by simp
    next
      case (repo sb e)
      with r show ?thesis by simp
    next
      case (jira sb owner repo tj e)
      with r have "r \<in> set (http_requests tj)" by simp
      with getJiraIssueTitle_trace [OF jira(1)] have "r = ?jr" "tj \<noteq> []" by auto
      with sent jira(1) have "tj = [Do ?jr]" "e = ?msg" by auto
      with jira show ?thesis by simp
    next
      case (submit sb owner repo title)
      with r assms(1) main_submit_pr_trace have "r = ?jr" by fastforce
      with sent submit(3) show ?thesis by simp
    qed
  }
  then show "r \<in> set (http_requests (fst (main_pr w))) \<Longrightarrow>
      snd (getJiraIssueTitle w (Getenv w ''JIRA_BASE_URL'') (Getenv w ''JIRA_EMAIL'')
                   (Getenv w ''JIRA_API_TOKEN'') (jiraIssueKey w)) = (None, Some ?msg)"
    and "r \<in> set (http_requests (fst (main_pr w))) \<Longrightarrow>
      snd (main_pr w) = Fatal (''Error fetching JIRA issue: Failed to fetch JIRA issue. Status: '' @ Status resp)"
    and "r \<in> set (http_requests (fst (main_pr w))) \<Longrightarrow> posts (fst (main_pr w)) = []"
    by simp_all
qed

theorem jira_failure_stops_the_run_witness:
  "http_requests (fst (main jira_404_world))
     = [jiraRequest ''https://jira.example.com/rest/api/3/issue/PROJ-42'' ''dev@example.com'' ''jt'']
   \<and> snd (main jira_404_world)
       = Fatal ''Error fetching JIRA issue: Failed to fetch JIRA issue. Status: 404 Not Found''
   \<and> posts (fst (main jira_404_world)) = []
   \<and> snd (main_pr jira_404_world)
       = Fatal ''Error fetching JIRA issue: Failed to fetch JIRA issue. Status: 404 Not Found''
   \<and> posts (fst (main_pr jira_404_world)) = []"
proof -
  let ?r = "jiraRequest ''https://jira.example.com/rest/api/3/issue/PROJ-42'' ''dev@example.com'' ''jt''"
  let ?resp = "\<lparr>StatusCode = 404, Status = ''404 Not Found'', RespBody = ''{errorMessages}'',
                ReadErr = None\<rparr>"
  have m: "Method ?r = ''GET''"
    by simp
  have t: "transport jira_404_world ?r = Inr ?resp"
    by code_simp
  have s: "StatusCode ?resp \<noteq> 200"
    by simp
  have h: "http_requests (fst (main jira_404_world)) = [?r]"
    "http_requests (fst (main_pr jira_404_world)) = [?r]"
    by code_simp+
  show ?thesis
    using jira_failure_stops_the_run [OF m t s] h by simp
qed

text \<open>
  C6 (as amended). In both entry points the run ends with exit status 0 only when the
  POST was answered with status 201, and a POST answered with any other status ends the
  run in \<^verbatim>\<open>log.Fatalf\<close> with a message holding the status text and the response body,
  unchanged. On 201 the entry point that discovers the default branch prints, last, the
  URL decoded from the response body; the entry point of cmd/cli/pr/main.go prints the
  line of success last.
\<close>

theorem only_status_201_succeeds:
  "(snd (main w) = Exit0 \<longrightarrow>
      (\<exists>r resp. posts (fst (main w)) = [r] \<and> transport w r = Inr resp \<and> StatusCode resp = 201))
   \<and> (r \<in> set (posts (fst (main w))) \<and> transport w r = Inr resp \<longrightarrow>
        (if StatusCode resp = 201
         then snd (main w) = Exit0
              \<and> last (printed (fst (main w)))
                  = Unmarshal_PullRequestResponse w (RespBody resp) @ ''\<newline>''
         else snd (main w) = Fatal (''Failed to create pull request. Status: '' @ Status resp
                                    @ '', Response: '' @ RespBody resp)))
   \<and> (snd (main_pr w) = Exit0 \<longrightarrow>
        (\<exists>r resp. posts (fst (main_pr w)) = [r] \<and> transport w r = Inr resp
                   \<and> StatusCode resp = 201))
   \<and> (r \<in> set (posts (fst (main_pr w))) \<and> transport w r = Inr resp \<longrightarrow>
        (if StatusCode resp = 201
         then snd (main_pr w) = Exit0
              \<and> last (printed (fst (main_pr w))) = ''Pull request created successfully!\<newline>''
         else snd (main_pr w) = Fatal (''Failed to create pull request. Status: '' @ Status resp
                                       @ '', Response: '' @ RespBody resp)))"
proof (intro conjI impI)
  assume ok: "snd (main w) = Exit0"
  show "\<exists>r resp. posts (fst (main w)) = [r] \<and> transport w r = Inr resp \<and> StatusCode resp = 201"
  proof (cases w rule: main_cases)
    case (submit sb base owner repo title)
    let ?tok = "Getenv w ''GITHUB_TOKEN''"
    let ?url = "''https://api.github.com/repos/'' @ owner @ ''/'' @ repo @ ''/pulls''"
    let ?js = "Marshal \<lparr>Title = ''['' @ jiraIssueKey w @ ''] '' @ title,
                         Body = Getenv w ''JIRA_BASE_URL'' @ ''/browse/'' @ jiraIssueKey w,
                         Head = sb, Base = base, Draft = True\<rparr>"
    from ok submit(5) have s: "snd (main_submit w ?tok ?url ?js) = Exit0" by simp
    show ?thesis
    proof (cases rule: main_submit_cases [where w = w and tok = ?tok and url = ?url and js = ?js])
      case (created resp)
      with submit(5) show ?thesis by simp
    qed (use s in simp_all)
  qed (use ok in simp_all)
next
  assume "r \<in> set (posts (fst (main w))) \<and> transport w r = Inr resp"
  then have r: "r \<in> set (posts (fst (main w)))" and t: "transport w r = Inr resp" by simp_all
  show "if StatusCode resp = 201
         then snd (main w) = Exit0
              \<and> last (printed (fst (main w)))
                  = Unmarshal_PullRequestResponse w (RespBody resp) @ ''\<newline>''
         else snd (main w) = Fatal (''Failed to create pull request. Status: '' @ Status resp
                                    @ '', Response: '' @ RespBody resp)"
  proof (cases w rule: main_cases)
    case (jira sb owner repo tj e)
    with r getJiraIssueTitle_no_post(1) [OF jira(1)] show ?thesis by simp
  next
    case (submit sb base owner repo title)
    let ?tok = "Getenv w ''GITHUB_TOKEN''"
    let ?url = "''https://api.github.com/repos/'' @ owner @ ''/'' @ repo @ ''/pulls''"
    let ?js = "Marshal \<lparr>Title = ''['' @ jiraIssueKey w @ ''] '' @ title,
                         Body = Getenv w ''JIRA_BASE_URL'' @ ''/browse/'' @ jiraIssueKey w,
                         Head = sb, Base = base, Draft = True\<rparr>"
    from r submit(5) have p: "r \<in> set (posts (fst (main_submit w ?tok ?url ?js)))" by simp
    then have req: "r = githubRequest ?tok ?url ?js"
      using main_submit_trace by blast
    show ?thesis
    proof (cases rule: main_submit_cases [where w = w and tok = ?tok and url = ?url and js = ?js])
      case (unsent err)
      with p show ?thesis by simp
    next
      case (transport err)
      with t req show ?thesis by simp
    next
      case (created resp')
      with t req submit(5) show ?thesis by simp
    next
      case (refused resp')
      with t req submit(5) show ?thesis by simp
    qed
  qed (use r in simp_all)
next
  assume ok: "snd (main_pr w) = Exit0"
  show "\<exists>r resp. posts (fst (main_pr w)) = [r] \<and> transport w r = Inr resp \<and> StatusCode resp = 201"
  proof (cases w rule: main_pr_cases)
    case (submit sb owner repo title)
    let ?tok = "Getenv w ''GITHUB_TOKEN''"
    let ?url = "''https://api.github.com/repos/'' @ owner @ ''/'' @ repo @ ''/pulls''"
    let ?js = "Marshal_pr \<lparr>Title = title,
                            Body = Getenv w ''JIRA_BASE_URL'' @ ''/browse/'' @ jiraIssueKey w @ ''.'',
                            Head = sb, Base = baseBranch_pr w\<rparr>"
    from ok submit(4) have s: "snd (main_submit_pr w ?tok ?url ?js) = Exit0" by simp
    show ?thesis
    proof (cases rule: main_submit_pr_cases [where w = w and tok = ?tok and url = ?url and js = ?js])
      case (created resp)
      with submit(4) show ?thesis by simp
    qed (use s in simp_all)
  qed (use ok in simp_all)
next
  assume "r \<in> set (posts (fst (main_pr w))) \<and> transport w r = Inr resp"
  then have r: "r \<in> set (posts (fst (main_pr w)))" and t: "transport w r = Inr resp" by simp_all
  show "if StatusCode resp = 201
         then snd (main_pr w) = Exit0
              \<and> last (printed (fst (main_pr w))) = ''Pull request created successfully!\<newline>''
         else snd (main_pr w) = Fatal (''Failed to create pull request. Status: '' @ Status resp
                                       @ '', Response: '' @ RespBody resp)"
  proof (cases w rule: main_pr_cases)
    case (jira sb owner repo tj e)
    with r getJiraIssueTitle_no_post(1) [OF jira(1)] show ?thesis by simp
  next
    case (submit sb owner repo title)
    let ?tok = "Getenv w ''GITHUB_TOKEN''"
    let ?url = "''https://api.github.com/repos/'' @ owner @ ''/'' @ repo @ ''/pulls''"
    let ?js = "Marshal_pr \<lparr>Title = title,
                            Body = Getenv w ''JIRA_BASE_URL'' @ ''/browse/'' @ jiraIssueKey w @ ''.'',
                            Head = sb, Base = baseBranch_pr w\<rparr>"
    from r submit(4) have p: "r \<in> set (posts (fst (main_submit_pr w ?tok ?url ?js)))" by simp
    then have req: "r = githubRequest_pr ?tok ?url ?js"
      using main_submit_pr_trace by blast
    show ?thesis
    proof (cases rule: main_submit_pr_cases [where w = w and tok = ?tok and url = ?url and js = ?js])
      case (unsent err)
      with p show ?thesis by simp
    next
      case (transport err)
      with t req show ?thesis by simp
    next
      case (created resp')
      with t req submit(4) show ?thesis by simp
    next
      case (refused resp')
      with t req submit(4) show ?thesis by simp
    qed
  qed (use r in simp_all)
qed

theorem only_status_201_succeeds_witness:
  "posts (fst (main sample_world)) \<noteq> []
   \<and> snd (main sample_world) = Exit0
   \<and> last (printed (fst (main sample_world)))
       = ''https://api.github.com/repos/jmoney/create-pr-from-jira/pulls/7\<newline>''
   \<and> posts (fst (main github_422_world)) \<noteq> []
   \<and> snd (main github_422_world)
       = Fatal ''Failed to create pull request. Status: 422 Unprocessable Entity, Response: Validation Failed''
   \<and> posts (fst (main_pr github_422_world)) \<noteq> []
   \<and> snd (main_pr github_422_world)
       = Fatal ''Failed to create pull request. Status: 422 Unprocessable Entity, Response: Validation Failed''"
proof -
  let ?created = "\<lparr>StatusCode = 201, Status = ''201 Created'', RespBody = ''{pull}'',
                   ReadErr = None\<rparr>"
  let ?refused = "\<lparr>StatusCode = 422, Status = ''422 Unprocessable Entity'',
                   RespBody = ''Validation Failed'', ReadErr = None\<rparr>"
  have n: "posts (fst (main sample_world)) \<noteq> []" "posts (fst (main github_422_world)) \<noteq> []"
    "posts (fst (main_pr github_422_world)) \<noteq> []"
    by code_simp+
  then have p: "hd (posts (fst (main sample_world))) \<in> set (posts (fst (main sample_world)))"
    "hd (posts (fst (main github_422_world))) \<in> set (posts (fst (main github_422_world)))"
    "hd (posts (fst (main_pr github_422_world))) \<in> set (posts (fst (main_pr github_422_world)))"
    by simp_all
  have t: "transport sample_world (hd (posts (fst (main sample_world)))) = Inr ?created"
    "transport github_422_world (hd (posts (fst (main github_422_world)))) = Inr ?refused"
    "transport github_422_world (hd (posts (fst (main_pr github_422_world)))) = Inr ?refused"
    by code_simp+
  have u: "Unmarshal_PullRequestResponse sample_world ''{pull}''
             = ''https://api.github.com/repos/jmoney/create-pr-from-jira/pulls/7''"
    by code_simp
  show ?thesis
    using only_status_201_succeeds
            [of sample_world "hd (posts (fst (main sample_world)))" ?created]
      only_status_201_succeeds
            [of github_422_world "hd (posts (fst (main github_422_world)))" ?refused]
      only_status_201_succeeds
            [of github_422_world "hd (posts (fst (main_pr github_422_world)))" ?refused]
      n p t u
    by simp
qed

text \<open>
  C6 as stated, for every run, fails in the entry point of cmd/cli/pr/main.go: on 201
  the run succeeds and prints four lines, none of them the URL of the pull request.
\<close>

theorem only_status_201_succeeds_counterexample:
  "transport sample_world (hd (posts (fst (main_pr sample_world))))
     = Inr \<lparr>StatusCode = 201, Status = ''201 Created'', RespBody = ''{pull}'', ReadErr = None\<rparr>
   \<and> Unmarshal_PullRequestResponse sample_world ''{pull}''
       = ''https://api.github.com/repos/jmoney/create-pr-from-jira/pulls/7''
   \<and> snd (main_pr sample_world) = Exit0
   \<and> printed (fst (main_pr sample_world))
       = [''Using current branch as source branch: feature/login\<newline>'',
          ''GitHub Owner: jmoney, Repo: create-pr-from-jira\<newline>'',
          ''Fetched JIRA issue title: Fix login bug\<newline>'',
          ''Pull request created successfully!\<newline>'']"
  by code_simp

text \<open>
  C9 (as amended). For every run, of either entry point, in which the issue key or one
  of the four environment variables is absent, the process stops before any subprocess
  is spawned and before any HTTP request is made (the trace is empty). When the command
  line does not parse, the run ends inside \<^verbatim>\<open>flag.Parse\<close>: with the usage and exit
  status 0 for \<^verbatim>\<open>-h\<close> or \<^verbatim>\<open>-help\<close>, with the flag error and exit status 2 for an
  undefined flag, a flag without its value or bad flag syntax. When it parses, the
  process stops in \<^verbatim>\<open>log.Fatalf\<close>: if an environment variable is absent the message is
  the fixed text that names all four variables, whichever is absent and whether or not
  the issue key is absent too; otherwise the message names the \<^verbatim>\<open>-issue\<close> flag.
\<close>

theorem config_error_before_any_call:
  assumes "env_missing w \<or> jiraIssueKey w = []"
  shows "fst (main w) = [] \<and> fst (main_pr w) = []
         \<and> (case flag_Parse w of
               Parsed actual \<Rightarrow>
                 main w = ([], Fatal (if env_missing w then env_message else issue_message))
                 \<and> main_pr w = ([], Fatal (if env_missing w then env_message else issue_message))
             | ErrHelp \<Rightarrow> main w = ([], Usage) \<and> main_pr w = ([], Usage)
             | Failed err \<Rightarrow> main w = ([], FlagError err) \<and> main_pr w = ([], FlagError err))"
proof (cases "flag_Parse w")
  case (Parsed actual)
  with assms show ?thesis
    by (auto simp: main_parsed main_pr_parsed env_message_def issue_message_def)
next
  case ErrHelp
  then show ?thesis by (simp add: main_def main_pr_def)
next
  case (Failed err)
  then show ?thesis by (simp add: main_def main_pr_def)
qed

theorem config_error_before_any_call_witness:
  "env_missing no_email_no_issue_world
   \<and> main no_email_no_issue_world = ([], Fatal env_message)
   \<and> main_pr no_email_no_issue_world = ([], Fatal env_message)
   \<and> \<not> env_missing no_issue_world \<and> jiraIssueKey no_issue_world = []
   \<and> main no_issue_world = ([], Fatal issue_message)
   \<and> main_pr no_issue_world = ([], Fatal issue_message)
   \<and> jiraIssueKey help_world = []
   \<and> main help_world = ([], Usage) \<and> main_pr help_world = ([], Usage)
   \<and> jiraIssueKey undefined_flag_world = []
   \<and> main undefined_flag_world = ([], FlagError ''flag provided but not defined: -isue'')
   \<and> main_pr undefined_flag_world = ([], FlagError ''flag provided but not defined: -isue'')"
proof -
  have a: "env_missing no_email_no_issue_world" "flag_Parse no_email_no_issue_world = Parsed []"
    by code_simp+
  have b: "\<not> env_missing no_issue_world" "jiraIssueKey no_issue_world = []"
    "flag_Parse no_issue_world = Parsed []"
    by code_simp+
  have c: "jiraIssueKey help_world = []" "flag_Parse help_world = ErrHelp"
    by code_simp+
  have d: "jiraIssueKey undefined_flag_world = []"
    "flag_Parse undefined_flag_world = Failed ''flag provided but not defined: -isue''"
    by code_simp+
  show ?thesis
    using config_error_before_any_call [of no_email_no_issue_world]
      config_error_before_any_call [of no_issue_world]
      config_error_before_any_call [of help_world]
      config_error_before_any_call [of undefined_flag_world] a b c d
    by simp
qed

text \<open>
  C9 as stated fails on what the error lists. With \<^verbatim>\<open>JIRA_EMAIL\<close> and the issue key
  absent and the three other variables set, the message names \<^verbatim>\<open>GITHUB_TOKEN\<close>, which
  is set, and does not name the issue flag, which is absent.
\<close>

theorem config_error_before_any_call_counterexample:
  "Getenv no_email_no_issue_world ''JIRA_EMAIL'' = []
   \<and> jiraIssueKey no_email_no_issue_world = []
   \<and> Getenv no_email_no_issue_world ''JIRA_BASE_URL'' = ''https://jira.example.com''
   \<and> Getenv no_email_no_issue_world ''JIRA_API_TOKEN'' = ''jt''
   \<and> Getenv no_email_no_issue_world ''GITHUB_TOKEN'' = ''gt''
   \<and> main no_email_no_issue_world = ([], Fatal env_message)
   \<and> mentions env_message ''GITHUB_TOKEN''
   \<and> \<not> mentions env_message ''issue''"
  by code_simp

end
